theory Spec2Isabelle
  imports Complex_Main
begin

section \<open>Python values, errors and the environment of the two scripts\<close>

text \<open>
  The repository holds two scripts, \<^verbatim>\<open>train.py\<close> (class \<^verbatim>\<open>Trainer\<close>) and
  \<^verbatim>\<open>eval.py\<close> (class \<^verbatim>\<open>Eval\<close>). Both are glue around modules that are not part
  of the sources at hand (\<^verbatim>\<open>model\<close>, \<^verbatim>\<open>box_utils\<close>, \<^verbatim>\<open>label_encoder\<close>,
  \<^verbatim>\<open>ssd_loss\<close>, \<^verbatim>\<open>decode_utils\<close>, \<^verbatim>\<open>data_utils\<close>, \<^verbatim>\<open>config\<close>) and around
  torch, numpy, OpenCV and the operating system. What those compute is a parameter of the
  model (the records \<open>torch_ext\<close> and \<open>eval_ext\<close> below); what the two scripts do with
  them (the order of the calls, the arguments, the attribute and name lookups, the
  exceptions, the file-system operations) is translated statement by statement.

  Every exception of the scripts is a value of \<open>error\<close>; a method of an object is a
  function from the object and the world to a result, the updated object and the
  updated world, so that the effects a statement had before a later one raised stay
  visible.
\<close>

datatype error =
    NameError string
  | AttributeError string
  | Exception string
  | ZeroDivisionError
  | IndexError
  | ValueError
  | TypeError
  | OSError
  | FileExistsError
  | FileNotFoundError
  | NotADirectoryError
  | IsADirectoryError
  | RuntimeError

subsection \<open>Floating-point numbers\<close>

text \<open>
  Python floats are kept abstract: the type \<open>'f\<close> with the operations the scripts apply
  to it. No theorem below depends on how these round.
\<close>

record 'f float_ops =
  fadd :: "'f \<Rightarrow> 'f \<Rightarrow> 'f"
  fmul :: "'f \<Rightarrow> 'f \<Rightarrow> 'f"
  fdiv :: "'f \<Rightarrow> 'f \<Rightarrow> 'f"
  float_of_int :: "int \<Rightarrow> 'f"
  is_zero :: "'f \<Rightarrow> bool"
  trunc_int :: "'f \<Rightarrow> int"

datatype 'f pynum = PyInt int | PyFloat 'f

fun to_float :: "'f float_ops \<Rightarrow> 'f pynum \<Rightarrow> 'f" where
  "to_float ops (PyInt i) = float_of_int ops i"
| "to_float ops (PyFloat x) = x"

text \<open>\<^verbatim>\<open>a + b\<close> on Python numbers: int + int stays an int, anything else is a float.\<close>

fun py_add :: "'f float_ops \<Rightarrow> 'f pynum \<Rightarrow> 'f pynum \<Rightarrow> 'f pynum" where
  "py_add ops (PyInt i) (PyInt j) = PyInt (i + j)"
| "py_add ops a b = PyFloat (fadd ops (to_float ops a) (to_float ops b))"

text \<open>\<^verbatim>\<open>a / b\<close>: true division, ZeroDivisionError on a zero divisor of either kind.\<close>

fun divisor_is_zero :: "'f float_ops \<Rightarrow> 'f pynum \<Rightarrow> bool" where
  "divisor_is_zero ops (PyInt j) = (j = 0)"
| "divisor_is_zero ops (PyFloat y) = is_zero ops y"

definition py_truediv :: "'f float_ops \<Rightarrow> 'f pynum \<Rightarrow> 'f pynum \<Rightarrow> error + 'f" where
  "py_truediv ops a b =
     (if divisor_is_zero ops b then Inl ZeroDivisionError
      else Inr (fdiv ops (to_float ops a) (to_float ops b)))"

subsection \<open>The file system\<close>

text \<open>
  A path is its list of components; \<^verbatim>\<open>os.path.join(d, f)\<close> of a relative \<open>f\<close> is the
  concatenation. The file system is a tree: a regular file with its bytes, or a
  directory mapping names to nodes.
\<close>

type_synonym path = "string list"

datatype node = File "nat list" | Dir "string \<Rightarrow> node option"

definition os_path_join :: "path \<Rightarrow> path \<Rightarrow> path" where
  "os_path_join d f = d @ f"

primrec lookup :: "path \<Rightarrow> node \<Rightarrow> node option" where
  "lookup [] n = Some n"
| "lookup (c # cs) n =
     (case n of
        File b \<Rightarrow> None
      | Dir es \<Rightarrow> (case es c of None \<Rightarrow> None | Some m \<Rightarrow> lookup cs m))"

definition os_path_exists :: "node \<Rightarrow> path \<Rightarrow> bool" where
  "os_path_exists tree p = (case lookup p tree of None \<Rightarrow> False | Some n \<Rightarrow> True)"

definition os_path_isdir :: "node \<Rightarrow> path \<Rightarrow> bool" where
  "os_path_isdir tree p =
     (case lookup p tree of Some (Dir es) \<Rightarrow> True | Some (File b) \<Rightarrow> False | None \<Rightarrow> False)"

text \<open>
  \<^verbatim>\<open>shutil.rmtree(p)\<close>, called on an existing directory: the directory and everything
  below it goes. The root itself cannot be removed: its content is deleted and the
  final rmdir fails.
\<close>

primrec remove_tree :: "path \<Rightarrow> node \<Rightarrow> node" where
  "remove_tree [] n = Dir Map.empty"
| "remove_tree (c # cs) n =
     (case n of
        File b \<Rightarrow> File b
      | Dir es \<Rightarrow>
          (if cs = [] then Dir (es(c := None))
           else (case es c of
                   None \<Rightarrow> Dir es
                 | Some m \<Rightarrow> Dir (es(c \<mapsto> remove_tree cs m)))))"

definition shutil_rmtree :: "path \<Rightarrow> node \<Rightarrow> (error + unit) \<times> node" where
  "shutil_rmtree p tree =
     (if p = [] then (Inl OSError, remove_tree p tree) else (Inr (), remove_tree p tree))"

text \<open>
  \<^verbatim>\<open>os.makedirs(p, exist_ok=True)\<close>: creates the missing directories on the way;
  succeeds on an existing directory; FileExistsError when \<open>p\<close> is a regular file,
  NotADirectoryError when a proper prefix of \<open>p\<close> is one.
\<close>

primrec makedirs :: "path \<Rightarrow> node \<Rightarrow> error + node" where
  "makedirs [] n = (case n of Dir es \<Rightarrow> Inr n | File b \<Rightarrow> Inl FileExistsError)"
| "makedirs (c # cs) n =
     (case n of
        File b \<Rightarrow> Inl NotADirectoryError
      | Dir es \<Rightarrow>
          (case makedirs cs (case es c of None \<Rightarrow> Dir Map.empty | Some m \<Rightarrow> m) of
             Inl e \<Rightarrow> Inl e
           | Inr m' \<Rightarrow> Inr (Dir (es(c \<mapsto> m')))))"

text \<open>
  Writing a file (\<^verbatim>\<open>torch.save\<close> opens its target for writing): the directory that is
  to hold it must exist.
\<close>

primrec write_file :: "path \<Rightarrow> nat list \<Rightarrow> node \<Rightarrow> error + node" where
  "write_file [] b n = Inl IsADirectoryError"
| "write_file (c # cs) b n =
     (case n of
        File b' \<Rightarrow> Inl NotADirectoryError
      | Dir es \<Rightarrow>
          (if cs = [] then
             (case es c of
                Some (Dir es') \<Rightarrow> Inl IsADirectoryError
              | Some (File b') \<Rightarrow> Inr (Dir (es(c \<mapsto> File b)))
              | None \<Rightarrow> Inr (Dir (es(c \<mapsto> File b))))
           else
             (case es c of
                None \<Rightarrow> Inl FileNotFoundError
              | Some m \<Rightarrow>
                  (case write_file cs b m of
                     Inl e \<Rightarrow> Inl e
                   | Inr m' \<Rightarrow> Inr (Dir (es(c \<mapsto> m')))))))"

text \<open>Reading an attribute that was never assigned raises AttributeError.\<close>

definition getattr :: "string \<Rightarrow> 'a option \<Rightarrow> error + 'a" where
  "getattr name v = (case v of None \<Rightarrow> Inl (AttributeError name) | Some x \<Rightarrow> Inr x)"

section \<open>train.py\<close>

subsection \<open>Configuration and the objects the Trainer holds\<close>

text \<open>
  The fields of \<^verbatim>\<open>Config\<close> that train.py reads. Paths are component lists, sizes and
  counts are naturals.
\<close>

record 'f train_config =
  model_name :: string
  checkpoint_dir :: path
  checkpoint_file :: path
  data_dir :: string
  train_file_path :: string
  eval_file_path :: string
  batch_size :: nat
  alpha :: 'f
  neg_pos_ratio :: 'f
  num_epochs :: nat

record 'f config =
  img_width :: nat
  img_height :: nat
  nclasses :: nat
  scales :: "'f list"
  aspect_ratios :: "'f list list"
  variances :: "'f list"
  train_cfg :: "'f train_config"

record 'f tensor =
  shape :: "nat list"
  data :: "'f list"

text \<open>One element of a data loader: the dictionary \<^verbatim>\<open>collate_sample\<close> builds.\<close>

record 'f sample =
  sample_image :: "'f tensor"
  sample_objs :: "'f list list list"
  sample_filename :: "string list"

text \<open>
  The transforms, datasets and loaders are kept as the constructor calls that built
  them; the keyword dictionaries of the augmentation are an association list from the
  keyword to the values of its dictionary, in the order written.
\<close>

datatype transform =
    SSDDataAugmentation nat nat "(string \<times> rat list) list" bool
  | Transpose
  | Normalization rat rat
  | Normalization2 rat rat

record dataset =
  ds_data_dir :: string
  ds_file_path :: string
  ds_transform :: "transform list"

record loader =
  ld_dataset :: dataset
  ld_batch_size :: nat
  ld_shuffle :: bool

datatype 'f arch =
    SSDModel nat nat nat "'f list" "'f list list"
  | Vgg19BaseSSD nat nat nat "'f list" "'f list list"

record ('w, 'f) ssd_model =
  arch :: "'f arch"
  weights :: 'w
  training :: bool

record 'f ssd_loss =
  loss_alpha :: 'f
  loss_neg_pos_ratio :: 'f

record 'f label_encoder_obj =
  anchor_boxes :: "'f list list"
  enc_nclasses :: nat
  enc_img_height :: nat
  enc_img_width :: nat
  variance :: "'f list"

subsection \<open>The world: files, the random generator, the console, the calls made\<close>

datatype 'f printed =
    PrintLoaded nat nat
  | PrintLoading path
  | PrintMissing path
  | PrintStart
  | PrintDevice string
  | PrintEpoch nat 'f 'f

text \<open>
  The calls into the absent modules are logged as they are made, with their arguments,
  so that how often and with what a module is called can be stated.
\<close>

datatype 'f call =
    CallModel "'f tensor"
  | CallGetPredictorShapes "'f tensor"
  | CallGenerateAnchors "nat list list" "'f list" "'f list list"
  | CallEncoder "'f label_encoder_obj" "'f list list list"
  | CallCriterion "'f tensor" "'f tensor"
  | CallOptimizerStep

record 'f world =
  fs :: node
  rng :: nat
  stdout :: "'f printed list"
  calls :: "'f call list"

definition py_print :: "'f printed \<Rightarrow> 'f world \<Rightarrow> 'f world" where
  "py_print line w = w\<lparr>stdout := stdout w @ [line]\<rparr>"

definition log_call :: "'f call \<Rightarrow> 'f world \<Rightarrow> 'f world" where
  "log_call c w = w\<lparr>calls := calls w @ [c]\<rparr>"

subsection \<open>What the absent modules and the libraries compute\<close>

text \<open>
  Each field is one external function, applied where the script calls it. Those that
  draw random numbers take the generator's state and return the new one. The calls are
  taken to return normally, except the two that read a checkpoint.
\<close>

record ('w, 'f) torch_ext =
  float_ops :: "'f float_ops"
  cuda_is_available :: bool
  dataset_len :: "dataset \<Rightarrow> nat"
  batches :: "loader \<Rightarrow> nat \<Rightarrow> 'f sample list \<times> nat"
  init_weights :: "'f arch \<Rightarrow> nat \<Rightarrow> 'w \<times> nat"
  unpickle :: "nat list \<Rightarrow> error + 'w"
  load_state_dict :: "('w, 'f) ssd_model \<Rightarrow> 'w \<Rightarrow> error + 'w"
  randn :: "nat list \<Rightarrow> nat \<Rightarrow> 'f list \<times> nat"
  predictor_grid :: "'f arch \<Rightarrow> nat list \<Rightarrow> nat list list"
  anchor_grid :: "nat list list \<Rightarrow> 'f list \<Rightarrow> 'f list list \<Rightarrow> 'f list list"
  adam_init :: "'w \<Rightarrow> 'w"
  forward :: "('w, 'f) ssd_model \<Rightarrow> 'f tensor \<Rightarrow> 'f tensor"
  encode :: "'f label_encoder_obj \<Rightarrow> 'f list list list \<Rightarrow> 'f tensor"
  loss_value :: "'f ssd_loss \<Rightarrow> 'f tensor \<Rightarrow> 'f tensor \<Rightarrow> 'f"
  adam_step :: "'f ssd_loss \<Rightarrow> ('w, 'f) ssd_model \<Rightarrow> 'w \<Rightarrow> 'f tensor \<Rightarrow> 'f tensor \<Rightarrow> 'w \<times> 'w"
  pickle :: "'w \<Rightarrow> nat list"
  format_checkpoint_file :: "nat \<Rightarrow> 'f \<Rightarrow> 'f \<Rightarrow> string"

text \<open>\<^verbatim>\<open>device = 'cuda' if torch.cuda.is_available() else 'cpu'\<close>\<close>

definition device :: "('w, 'f) torch_ext \<Rightarrow> string" where
  "device ext = (if cuda_is_available ext then ''cuda'' else ''cpu'')"

text \<open>\<^verbatim>\<open>torch.load(path)\<close>: opens the file and unpickles it.\<close>

definition torch_load :: "('w, 'f) torch_ext \<Rightarrow> node \<Rightarrow> path \<Rightarrow> error + 'w" where
  "torch_load ext tree p =
     (case lookup p tree of
        None \<Rightarrow> Inl FileNotFoundError
      | Some (Dir es) \<Rightarrow> Inl IsADirectoryError
      | Some (File b) \<Rightarrow> unpickle ext b)"

text \<open>\<^verbatim>\<open>torch.randn(*dims)\<close>: a tensor of that shape, its values drawn from the generator.\<close>

definition torch_randn :: "('w, 'f) torch_ext \<Rightarrow> nat list \<Rightarrow> nat \<Rightarrow> 'f tensor \<times> nat" where
  "torch_randn ext dims seed =
     (case randn ext dims seed of (vals, seed') \<Rightarrow> (\<lparr>shape = dims, data = vals\<rparr>, seed'))"

text \<open>
  Modelled from the spec: \<^verbatim>\<open>SSDModel.get_predictor_shapes\<close> (module \<^verbatim>\<open>model\<close>, absent).
  The spec takes the backbone as a black box and the per-scale feature-map grid
  dimensions as part of the network geometry, a function of the configuration and the
  input resolution: so the shapes depend on the architecture and on the shape of the
  tensor passed through, not on the weights or on the tensor's values.
\<close>

definition get_predictor_shapes ::
  "('w, 'f) torch_ext \<Rightarrow> ('w, 'f) ssd_model \<Rightarrow> 'f tensor \<Rightarrow> nat list list" where
  "get_predictor_shapes ext m x = predictor_grid ext (arch m) (shape x)"

text \<open>
  Modelled from the spec: \<^verbatim>\<open>BoxUtils.generate_anchor_boxes_model\<close> (module
  \<^verbatim>\<open>box_utils\<close>, absent). The spec's AnchorGenerator is a pure function of the grid
  dimensions, the scales and the aspect ratios, with no randomness and no side effect.
\<close>

definition generate_anchor_boxes_model ::
  "('w, 'f) torch_ext \<Rightarrow> nat list list \<Rightarrow> 'f list \<Rightarrow> 'f list list \<Rightarrow> 'f list list" where
  "generate_anchor_boxes_model ext predictor_shapes scs ars = anchor_grid ext predictor_shapes scs ars"

subsection \<open>The Trainer\<close>

text \<open>
  The attributes a Trainer gets, in the order the constructor assigns them. An
  attribute not yet assigned is \<open>None\<close>. The optimizer is its state over the model's
  parameters.
\<close>

record ('w, 'f) trainer =
  cfg :: "'f config"
  train_loader :: "loader option"
  eval_loader :: "loader option"
  model :: "('w, 'f) ssd_model option"
  criterion :: "'f ssd_loss option"
  label_encoder :: "'f label_encoder_obj option"
  optimizer :: "'w option"

type_synonym ('a, 'w, 'f) method_result = "(error + 'a) \<times> ('w, 'f) trainer \<times> 'f world"

text \<open>\<^verbatim>\<open>Trainer.build_model\<close>\<close>

definition build_model ::
  "('w, 'f) torch_ext \<Rightarrow> ('w, 'f) trainer \<Rightarrow> 'f world \<Rightarrow> (unit, 'w, 'f) method_result" where
  "build_model ext self w =
     (let c = cfg self; tc = train_cfg c in
      case (if model_name tc = ''SSDModel'' then
              Inr (SSDModel (img_width c) (img_height c) (nclasses c) (scales c) (aspect_ratios c))
            else if model_name tc = ''Vgg19BaseSSD'' then
              Inr (Vgg19BaseSSD (img_width c) (img_height c) (nclasses c) (scales c) (aspect_ratios c))
            else Inl (Exception ''Model name not found!'')) of
        Inl e \<Rightarrow> (Inl e, self, w)
      | Inr a \<Rightarrow>
          (case init_weights ext a (rng w) of (wts, seed') \<Rightarrow>
            (let m = \<lparr>arch = a, weights = wts, training = True\<rparr>;
                self1 = self\<lparr>model := Some m\<rparr>;
                w1 = w\<lparr>rng := seed'\<rparr>;
                checkpoint_path = os_path_join (checkpoint_dir tc) (checkpoint_file tc)
            in if os_path_exists (fs w1) checkpoint_path then
                 (let w2 = py_print (PrintLoading checkpoint_path) w1 in
                  case torch_load ext (fs w2) checkpoint_path of
                    Inl e \<Rightarrow> (Inl e, self1, w2)
                  | Inr sd \<Rightarrow>
                      (case load_state_dict ext m sd of
                         Inl e \<Rightarrow> (Inl e, self1, w2)
                       | Inr wts' \<Rightarrow> (Inr (), self1\<lparr>model := Some (m\<lparr>weights := wts'\<rparr>)\<rparr>, w2)))
               else (Inr (), self1, py_print (PrintMissing checkpoint_path) w1))))"

text \<open>\<^verbatim>\<open>Trainer.prepare_data\<close>\<close>

definition prepare_data ::
  "('w, 'f) torch_ext \<Rightarrow> ('w, 'f) trainer \<Rightarrow> 'f world \<Rightarrow> (unit, 'w, 'f) method_result" where
  "prepare_data ext self w =
     (let c = cfg self; tc = train_cfg c;
          train_aug = SSDDataAugmentation (img_height c) (img_width c)
            [(''random_brightness'', [-48, 48, 0.5]),
             (''random_contrast'', [0.5, 1.8, 0.5]),
             (''random_saturation'', [0.5, 1.8, 0.5]),
             (''random_hue'', [0.5, 1.5, 0.5]),
             (''channel_shuffle'', [0.5]),
             (''random_translate'', [-0.2, 0.2, 0.5]),
             (''random_scale'', [0.7, 1.2, 0.5]),
             (''prob'', [0.8])] True;
          eval_aug = SSDDataAugmentation (img_height c) (img_width c) [] False;
          train_ds = \<lparr>ds_data_dir = data_dir tc, ds_file_path = train_file_path tc,
                      ds_transform = [train_aug, Transpose, Normalization2 127.5 127.5]\<rparr>;
          eval_ds = \<lparr>ds_data_dir = data_dir tc, ds_file_path = eval_file_path tc,
                     ds_transform = [eval_aug, Transpose, Normalization2 127.5 127.5]\<rparr>;
          self1 = self\<lparr>train_loader :=
                    Some \<lparr>ld_dataset = train_ds, ld_batch_size = batch_size tc, ld_shuffle = True\<rparr>\<rparr>;
          self2 = self1\<lparr>eval_loader :=
                    Some \<lparr>ld_dataset = eval_ds, ld_batch_size = batch_size tc, ld_shuffle = False\<rparr>\<rparr>
      in (Inr (), self2,
          py_print (PrintLoaded (dataset_len ext train_ds) (dataset_len ext eval_ds)) w))"

text \<open>\<^verbatim>\<open>Trainer.parse_config\<close>\<close>

definition parse_config ::
  "('w, 'f) torch_ext \<Rightarrow> ('w, 'f) trainer \<Rightarrow> 'f world \<Rightarrow> (unit, 'w, 'f) method_result" where
  "parse_config ext self w =
     (case build_model ext self w of
        (Inl e, self1, w1) \<Rightarrow> (Inl e, self1, w1)
      | (Inr u, self1, w1) \<Rightarrow>
          (let c = cfg self1; tc = train_cfg c;
               self2 = self1\<lparr>criterion :=
                         Some \<lparr>loss_alpha = alpha tc, loss_neg_pos_ratio = neg_pos_ratio tc\<rparr>\<rparr>
           in case torch_randn ext [1, 3, img_height c, img_width c] (rng w1) of (x, seed') \<Rightarrow>
             (let w2 = w1\<lparr>rng := seed'\<rparr> in
              case getattr ''model'' (model self2) of
               Inl e \<Rightarrow> (Inl e, self2, w2)
             | Inr m \<Rightarrow>
                 (let predictor_shapes = get_predictor_shapes ext m x;
                      w3 = log_call (CallGetPredictorShapes x) w2;
                      anchors = generate_anchor_boxes_model ext predictor_shapes
                                  (scales c) (aspect_ratios c);
                      w4 = log_call (CallGenerateAnchors predictor_shapes (scales c) (aspect_ratios c)) w3;
                      self3 = self2\<lparr>label_encoder :=
                                Some \<lparr>anchor_boxes = anchors, enc_nclasses = nclasses c,
                                      enc_img_height = img_height c, enc_img_width = img_width c,
                                      variance = variances c\<rparr>\<rparr>
                  in case getattr ''model'' (model self3) of
                       Inl e \<Rightarrow> (Inl e, self3, w4)
                     | Inr m' \<Rightarrow>
                         (let self4 = self3\<lparr>optimizer := Some (adam_init ext (weights m'))\<rparr> in
                          case (if os_path_exists (fs w4) (checkpoint_dir tc)
                                   \<and> os_path_isdir (fs w4) (checkpoint_dir tc)
                                then shutil_rmtree (checkpoint_dir tc) (fs w4)
                                else (Inr (), fs w4)) of
                            (Inl e, tree) \<Rightarrow> (Inl e, self4, w4\<lparr>fs := tree\<rparr>)
                          | (Inr u', tree) \<Rightarrow>
                              (case makedirs (checkpoint_dir tc) tree of
                                 Inl e \<Rightarrow> (Inl e, self4, w4\<lparr>fs := tree\<rparr>)
                               | Inr tree' \<Rightarrow> (Inr (), self4, w4\<lparr>fs := tree'\<rparr>)))))))"

text \<open>\<^verbatim>\<open>Trainer.__init__\<close>\<close>

definition Trainer_init ::
  "('w, 'f) torch_ext \<Rightarrow> 'f config \<Rightarrow> 'f world \<Rightarrow> (unit, 'w, 'f) method_result" where
  "Trainer_init ext c w =
     (let self = \<lparr>cfg = c, train_loader = None, eval_loader = None, model = None,
                  criterion = None, label_encoder = None, optimizer = None\<rparr>
      in case prepare_data ext self w of
           (Inl e, self1, w1) \<Rightarrow> (Inl e, self1, w1)
         | (Inr u, self1, w1) \<Rightarrow> parse_config ext self1 w1)"

text \<open>
  The body of the loop of \<^verbatim>\<open>Trainer.train_on_epoch\<close>, over the samples the loader
  yields. \<^verbatim>\<open>.to(device)\<close> moves a tensor and leaves its value. The three optimizer
  statements (zero_grad, backward, step) update the model's weights and the optimizer's
  state from the loss of this batch.
\<close>

fun train_batches ::
  "('w, 'f) torch_ext \<Rightarrow> 'f sample list \<Rightarrow> 'f pynum \<Rightarrow> ('w, 'f) trainer \<Rightarrow> 'f world
     \<Rightarrow> ('f pynum, 'w, 'f) method_result" where
  "train_batches ext [] total_loss self w = (Inr total_loss, self, w)"
| "train_batches ext (sample # rest) total_loss self w =
     (let images = sample_image sample; objs = sample_objs sample in
      case getattr ''model'' (model self) of
        Inl e \<Rightarrow> (Inl e, self, w)
      | Inr m \<Rightarrow>
          (let output = forward ext m images;
               w1 = log_call (CallModel images) w in
           case getattr ''label_encoder'' (label_encoder self) of
             Inl e \<Rightarrow> (Inl e, self, w1)
           | Inr enc \<Rightarrow>
               (let labels = encode ext enc objs;
                    w2 = log_call (CallEncoder enc objs) w1 in
                case getattr ''criterion'' (criterion self) of
                  Inl e \<Rightarrow> (Inl e, self, w2)
                | Inr crit \<Rightarrow>
                    (let loss = loss_value ext crit output labels;
                         w3 = log_call (CallCriterion output labels) w2;
                         total_loss' = py_add (float_ops ext) total_loss (PyFloat loss) in
                     case getattr ''optimizer'' (optimizer self) of
                       Inl e \<Rightarrow> (Inl e, self, w3)
                     | Inr opt \<Rightarrow>
                         (case adam_step ext crit m opt images labels of (wts', opt') \<Rightarrow>
                            train_batches ext rest total_loss'
                              (self\<lparr>model := Some (m\<lparr>weights := wts'\<rparr>), optimizer := Some opt'\<rparr>)
                              (log_call CallOptimizerStep w3))))))"

text \<open>
  \<^verbatim>\<open>Trainer.train_on_epoch\<close>. \<^verbatim>\<open>len(self.train_loader)\<close> is the number of batches the
  loader yields.
\<close>

definition train_on_epoch ::
  "('w, 'f) torch_ext \<Rightarrow> ('w, 'f) trainer \<Rightarrow> 'f world \<Rightarrow> nat \<Rightarrow> ('f, 'w, 'f) method_result" where
  "train_on_epoch ext self w epoch =
     (case getattr ''model'' (model self) of
        Inl e \<Rightarrow> (Inl e, self, w)
      | Inr m \<Rightarrow>
          (let self1 = self\<lparr>model := Some (m\<lparr>training := True\<rparr>)\<rparr> in
           case getattr ''train_loader'' (train_loader self1) of
             Inl e \<Rightarrow> (Inl e, self1, w)
           | Inr ld \<Rightarrow>
               (case batches ext ld (rng w) of (samples, seed') \<Rightarrow>
                  (case train_batches ext samples (PyInt 0) self1 (w\<lparr>rng := seed'\<rparr>) of
                     (Inl e, self2, w2) \<Rightarrow> (Inl e, self2, w2)
                   | (Inr total_loss, self2, w2) \<Rightarrow>
                       (py_truediv (float_ops ext) total_loss (PyInt (int (length samples))),
                        self2, w2)))))"

text \<open>The body of the loop of \<^verbatim>\<open>Trainer.evaluate_on_epoch\<close>, under \<^verbatim>\<open>torch.no_grad()\<close>.\<close>

fun evaluate_batches ::
  "('w, 'f) torch_ext \<Rightarrow> 'f sample list \<Rightarrow> 'f pynum \<Rightarrow> ('w, 'f) trainer \<Rightarrow> 'f world
     \<Rightarrow> ('f pynum, 'w, 'f) method_result" where
  "evaluate_batches ext [] total_loss self w = (Inr total_loss, self, w)"
| "evaluate_batches ext (sample # rest) total_loss self w =
     (let images = sample_image sample; objs = sample_objs sample in
      case getattr ''model'' (model self) of
        Inl e \<Rightarrow> (Inl e, self, w)
      | Inr m \<Rightarrow>
          (let output = forward ext m images;
               w1 = log_call (CallModel images) w in
           case getattr ''label_encoder'' (label_encoder self) of
             Inl e \<Rightarrow> (Inl e, self, w1)
           | Inr enc \<Rightarrow>
               (let labels = encode ext enc objs;
                    w2 = log_call (CallEncoder enc objs) w1 in
                case getattr ''criterion'' (criterion self) of
                  Inl e \<Rightarrow> (Inl e, self, w2)
                | Inr crit \<Rightarrow>
                    (let loss = loss_value ext crit output labels;
                         w3 = log_call (CallCriterion output labels) w2;
                         total_loss' = py_add (float_ops ext) total_loss (PyFloat loss) in
                     evaluate_batches ext rest total_loss' self w3))))"

text \<open>\<^verbatim>\<open>Trainer.evaluate_on_epoch\<close>\<close>

definition evaluate_on_epoch ::
  "('w, 'f) torch_ext \<Rightarrow> ('w, 'f) trainer \<Rightarrow> 'f world \<Rightarrow> nat \<Rightarrow> ('f, 'w, 'f) method_result" where
  "evaluate_on_epoch ext self w epoch =
     (case getattr ''model'' (model self) of
        Inl e \<Rightarrow> (Inl e, self, w)
      | Inr m \<Rightarrow>
          (let self1 = self\<lparr>model := Some (m\<lparr>training := False\<rparr>)\<rparr> in
           case getattr ''eval_loader'' (eval_loader self1) of
             Inl e \<Rightarrow> (Inl e, self1, w)
           | Inr ld \<Rightarrow>
               (case batches ext ld (rng w) of (samples, seed') \<Rightarrow>
                  (case evaluate_batches ext samples (PyInt 0) self1 (w\<lparr>rng := seed'\<rparr>) of
                     (Inl e, self2, w2) \<Rightarrow> (Inl e, self2, w2)
                   | (Inr total_loss, self2, w2) \<Rightarrow>
                       (py_truediv (float_ops ext) total_loss (PyInt (int (length samples))),
                        self2, w2)))))"

text \<open>
  The loop of \<^verbatim>\<open>Trainer.run\<close> over \<^verbatim>\<open>range(num_epochs)\<close>, and \<^verbatim>\<open>Trainer.run\<close>.
  \<^verbatim>\<open>torch.save\<close> writes the pickled state dict to the checkpoint directory.
\<close>

fun run_epochs ::
  "('w, 'f) torch_ext \<Rightarrow> nat list \<Rightarrow> ('w, 'f) trainer \<Rightarrow> 'f world \<Rightarrow> (unit, 'w, 'f) method_result" where
  "run_epochs ext [] self w = (Inr (), self, w)"
| "run_epochs ext (epoch # rest) self w =
     (case train_on_epoch ext self w epoch of
        (Inl e, self1, w1) \<Rightarrow> (Inl e, self1, w1)
      | (Inr train_epoch_loss, self1, w1) \<Rightarrow>
          (case evaluate_on_epoch ext self1 w1 epoch of
             (Inl e, self2, w2) \<Rightarrow> (Inl e, self2, w2)
           | (Inr eval_epoch_loss, self2, w2) \<Rightarrow>
               (let w3 = py_print (PrintEpoch epoch train_epoch_loss eval_epoch_loss) w2;
                    checkpoint_file = format_checkpoint_file ext epoch train_epoch_loss eval_epoch_loss
                in case getattr ''model'' (model self2) of
                     Inl e \<Rightarrow> (Inl e, self2, w3)
                   | Inr m \<Rightarrow>
                       (case write_file
                               (os_path_join (checkpoint_dir (train_cfg (cfg self2))) [checkpoint_file])
                               (pickle ext (weights m)) (fs w3) of
                          Inl e \<Rightarrow> (Inl e, self2, w3)
                        | Inr tree \<Rightarrow> run_epochs ext rest self2 (w3\<lparr>fs := tree\<rparr>)))))"

definition run ::
  "('w, 'f) torch_ext \<Rightarrow> ('w, 'f) trainer \<Rightarrow> 'f world \<Rightarrow> (unit, 'w, 'f) method_result" where
  "run ext self w =
     run_epochs ext [0 ..< num_epochs (train_cfg (cfg self))] self
       (py_print (PrintDevice (device ext)) (py_print PrintStart w))"

section \<open>eval.py\<close>

subsection \<open>Global names\<close>

text \<open>
  A function of eval.py finds a global name in the module's dictionary, or raises
  NameError. The dictionary is a parameter of the model, so that what \<^verbatim>\<open>Eval.run\<close> does
  can be stated both for the module as it is written and for a module into which the
  missing names were put from outside. The built-in names (\<^verbatim>\<open>open\<close>, \<^verbatim>\<open>len\<close>,
  \<^verbatim>\<open>zip\<close>, \<^verbatim>\<open>int\<close>, \<^verbatim>\<open>print\<close>) are always found.
\<close>

datatype 'f pyval =
    PyModule string
  | PyClass string
  | PyFunction string
  | PyStr string
  | PyNumber "'f pynum"

type_synonym 'f globals = "string \<Rightarrow> 'f pyval option"

text \<open>The names the statements of eval.py bind: its imports and the class itself.\<close>

definition eval_module_globals :: "'f globals" where
  "eval_module_globals =
     [''torch'' \<mapsto> PyModule ''torch'',
      ''EvalConfig'' \<mapsto> PyClass ''EvalConfig'',
      ''SSDModel'' \<mapsto> PyClass ''SSDModel'',
      ''SSDDataAugmentation'' \<mapsto> PyClass ''SSDDataAugmentation'',
      ''Transpose'' \<mapsto> PyClass ''Transpose'',
      ''Normalization'' \<mapsto> PyClass ''Normalization'',
      ''collate_sample'' \<mapsto> PyFunction ''collate_sample'',
      ''transforms'' \<mapsto> PyModule ''torchvision.transforms'',
      ''decode_output'' \<mapsto> PyFunction ''decode_output'',
      ''Eval'' \<mapsto> PyClass ''Eval'']"

definition load_global :: "'f globals \<Rightarrow> string \<Rightarrow> error + 'f pyval" where
  "load_global g name = (case g name of None \<Rightarrow> Inl (NameError name) | Some v \<Rightarrow> Inr v)"

text \<open>
  \<^verbatim>\<open>name.attr\<close> for a module: the name must be bound, and to the module that has the
  attribute.
\<close>

definition load_module_attr :: "'f globals \<Rightarrow> string \<Rightarrow> string \<Rightarrow> string \<Rightarrow> error + unit" where
  "load_module_attr g name lib attr =
     (case load_global g name of
        Inl e \<Rightarrow> Inl e
      | Inr v \<Rightarrow> (if v = PyModule lib then Inr () else Inl (AttributeError attr)))"

text \<open>\<^verbatim>\<open>name(...)\<close>: the name must be bound, and to the class or function called.\<close>

definition load_callable :: "'f globals \<Rightarrow> string \<Rightarrow> error + unit" where
  "load_callable g name =
     (case load_global g name of
        Inl e \<Rightarrow> Inl e
      | Inr v \<Rightarrow> (if v = PyClass name \<or> v = PyFunction name then Inr () else Inl TypeError))"

definition load_str :: "'f globals \<Rightarrow> string \<Rightarrow> error + string" where
  "load_str g name =
     (case load_global g name of
        Inl e \<Rightarrow> Inl e
      | Inr v \<Rightarrow> (case v of PyStr s \<Rightarrow> Inr s | _ \<Rightarrow> Inl TypeError))"

definition load_number :: "'f globals \<Rightarrow> string \<Rightarrow> error + 'f pynum" where
  "load_number g name =
     (case load_global g name of
        Inl e \<Rightarrow> Inl e
      | Inr v \<Rightarrow> (case v of PyNumber n \<Rightarrow> Inr n | _ \<Rightarrow> Inl TypeError))"

subsection \<open>Paths as strings\<close>

text \<open>\<^verbatim>\<open>os.path.join(a, b)\<close>, \<^verbatim>\<open>os.path.basename(p)\<close> and \<^verbatim>\<open>s.split('.')[0]\<close> (POSIX).\<close>

definition path_join :: "string \<Rightarrow> string \<Rightarrow> string" where
  "path_join a b =
     (if b \<noteq> [] \<and> hd b = CHR ''/'' then b
      else if a = [] \<or> last a = CHR ''/'' then a @ b
      else a @ ''/'' @ b)"

definition basename :: "string \<Rightarrow> string" where
  "basename p = rev (takeWhile (\<lambda>ch. ch \<noteq> CHR ''/'') (rev p))"

definition split_dot_first :: "string \<Rightarrow> string" where
  "split_dot_first s = takeWhile (\<lambda>ch. ch \<noteq> CHR ''.'') s"

subsection \<open>Configuration, objects and the world of the evaluation\<close>

record eval_data_config =
  ed_data_dir :: string
  ed_eval_file_path :: string
  ed_batch_size :: nat

record 'f eval_config =
  ev_img_width :: nat
  ev_img_height :: nat
  ev_nclasses :: nat
  ev_scales :: "'f list"
  ev_aspect_ratios :: "'f list list"
  ev_eval_cfg :: eval_data_config

text \<open>
  The attributes \<^verbatim>\<open>run\<close> reads from \<^verbatim>\<open>self.eval_cfg\<close>. No statement of the class
  assigns \<^verbatim>\<open>self.eval_cfg\<close>.
\<close>

record 'f eval_params =
  threshold :: 'f
  iou_threshold :: 'f
  groundtruths :: string
  detections :: string
  debug_imgs :: string

record ('w, 'f) eval_obj =
  e_cfg :: "'f eval_config"
  e_model :: "('w, 'f) ssd_model option"
  e_eval_loader :: "loader option"
  e_eval_cfg :: "'f eval_params option"

text \<open>
  An OpenCV image: its height and width, and what was drawn on it, in order. The pixels
  are not modelled.
\<close>

datatype 'f drawing =
    Rectangle "int \<times> int" "int \<times> int" "nat \<times> nat \<times> nat" nat
  | PutText 'f "int \<times> int" nat "nat \<times> nat \<times> nat" nat

record 'f image =
  img_h :: nat
  img_w :: nat
  drawn :: "'f drawing list"

text \<open>The lines written to the text files, by the values formatted into them.\<close>

datatype 'f line =
    GtLine int 'f 'f 'f 'f
  | DetLine int 'f int int int int

text \<open>A call of \<^verbatim>\<open>decode_output\<close>: its positional and its keyword arguments.\<close>

datatype 'f decode_call = DecodeCall "'f tensor list" "(string \<times> 'f) list"

record 'f eval_world =
  ew_rng :: nat
  ew_files :: "(string \<times> 'f line list) list"
  ew_images :: "(string \<times> 'f image) list"
  ew_stdout :: "nat list"
  ew_decode_calls :: "'f decode_call list"

text \<open>
  The evaluation calls two more external functions: the decoder of \<^verbatim>\<open>decode_utils\<close>
  (absent), which returns for each image of the batch its detections
  \<^verbatim>\<open>[class, confidence, xmin, ymin, xmax, ymax]\<close>, and \<^verbatim>\<open>cv2.imread\<close>, which returns
  the image at a path (its height and width here) or None.
\<close>

record ('w, 'f) eval_ext = "('w, 'f) torch_ext" +
  decode_output :: "'f tensor \<Rightarrow> 'f \<Rightarrow> 'f \<Rightarrow> 'f list list list"
  imread :: "string \<Rightarrow> (nat \<times> nat) option"

type_synonym ('a, 'w, 'f) eval_result = "(error + 'a) \<times> ('w, 'f) eval_obj \<times> 'f eval_world"

subsection \<open>The class Eval\<close>

text \<open>\<^verbatim>\<open>Eval.__init__\<close>\<close>

definition Eval_init :: "'f eval_config \<Rightarrow> ('w, 'f) eval_obj" where
  "Eval_init c = \<lparr>e_cfg = c, e_model = None, e_eval_loader = None, e_eval_cfg = None\<rparr>"

text \<open>\<^verbatim>\<open>Eval.build_model\<close>: the model is constructed before \<^verbatim>\<open>device\<close> is looked up.\<close>

definition Eval_build_model ::
  "('w, 'f) eval_ext \<Rightarrow> 'f globals \<Rightarrow> ('w, 'f) eval_obj \<Rightarrow> 'f eval_world
     \<Rightarrow> (unit, 'w, 'f) eval_result" where
  "Eval_build_model ext g self w =
     (let c = e_cfg self in
      case load_callable g ''SSDModel'' of
        Inl e \<Rightarrow> (Inl e, self, w)
      | Inr u \<Rightarrow>
          (let a = SSDModel (ev_img_width c) (ev_img_height c) (ev_nclasses c)
                     (ev_scales c) (ev_aspect_ratios c) in
           case init_weights ext a (ew_rng w) of (wts, seed') \<Rightarrow>
             (let w1 = w\<lparr>ew_rng := seed'\<rparr> in
              case load_str g ''device'' of
                Inl e \<Rightarrow> (Inl e, self, w1)
              | Inr d \<Rightarrow>
                  (Inr (), self\<lparr>e_model := Some \<lparr>arch = a, weights = wts, training = True\<rparr>\<rparr>, w1))))"

text \<open>\<^verbatim>\<open>Eval.prepare_data\<close>\<close>

definition Eval_prepare_data ::
  "('w, 'f) eval_ext \<Rightarrow> 'f globals \<Rightarrow> ('w, 'f) eval_obj \<Rightarrow> 'f eval_world
     \<Rightarrow> (unit, 'w, 'f) eval_result" where
  "Eval_prepare_data ext g self w =
     (let c = e_cfg self; ec = ev_eval_cfg c in
      case load_callable g ''SSDDataAugmentation'' of
        Inl e \<Rightarrow> (Inl e, self, w)
      | Inr u1 \<Rightarrow>
     (let eval_aug = SSDDataAugmentation (ev_img_height c) (ev_img_width c) [] False in
      case load_callable g ''SSDDataset'' of
        Inl e \<Rightarrow> (Inl e, self, w)
      | Inr u2 \<Rightarrow>
     (case load_module_attr g ''transforms'' ''torchvision.transforms'' ''Compose'' of
        Inl e \<Rightarrow> (Inl e, self, w)
      | Inr u3 \<Rightarrow>
     (case load_callable g ''Transpose'' of
        Inl e \<Rightarrow> (Inl e, self, w)
      | Inr u4 \<Rightarrow>
     (case load_callable g ''Normalization'' of
        Inl e \<Rightarrow> (Inl e, self, w)
      | Inr u5 \<Rightarrow>
     (let eval_ds = \<lparr>ds_data_dir = ed_data_dir ec, ds_file_path = ed_eval_file_path ec,
                     ds_transform = [eval_aug, Transpose, Normalization 127.5 127.5]\<rparr> in
      case load_module_attr g ''torch'' ''torch'' ''utils'' of
        Inl e \<Rightarrow> (Inl e, self, w)
      | Inr u6 \<Rightarrow>
     (case load_callable g ''collate_sample'' of
        Inl e \<Rightarrow> (Inl e, self, w)
      | Inr u7 \<Rightarrow>
          (Inr (),
           self\<lparr>e_eval_loader :=
                  Some \<lparr>ld_dataset = eval_ds, ld_batch_size = ed_batch_size ec, ld_shuffle = False\<rparr>\<rparr>,
           w))))))))"

subsection \<open>Eval.run\<close>

text \<open>
  The loop over the ground-truth boxes of one image. The line is written first, from the
  box as the loader gave it; then \<^verbatim>\<open>box[1:] *= [scalex, scaley, scalex, scaley]\<close> scales
  the four coordinates in place (the slice must have four elements), \<^verbatim>\<open>astype(np.int)\<close>
  truncates, and the rectangle is drawn in red.
\<close>

fun draw_groundtruths ::
  "'f float_ops \<Rightarrow> 'f globals \<Rightarrow> 'f \<Rightarrow> 'f \<Rightarrow> 'f list list \<Rightarrow> 'f image \<Rightarrow> 'f line list
     \<Rightarrow> (error + unit) \<times> 'f image \<times> 'f line list" where
  "draw_groundtruths ops g scalex scaley [] img lines = (Inr (), img, lines)"
| "draw_groundtruths ops g scalex scaley (box # rest) img lines =
     (if length box < 5 then (Inl IndexError, img, lines)
      else
        (let lines1 = lines @ [GtLine (trunc_int ops (box ! 0)) (box ! 1) (box ! 2) (box ! 3) (box ! 4)] in
         if length box \<noteq> 5 then (Inl ValueError, img, lines1)
         else
           (let box1 = box ! 0 # map2 (fmul ops) (tl box) [scalex, scaley, scalex, scaley] in
            case load_module_attr g ''np'' ''numpy'' ''int'' of
              Inl e \<Rightarrow> (Inl e, img, lines1)
            | Inr u \<Rightarrow>
                (let box2 = map (trunc_int ops) box1 in
                 case load_module_attr g ''cv2'' ''cv2'' ''rectangle'' of
                   Inl e \<Rightarrow> (Inl e, img, lines1)
                 | Inr u' \<Rightarrow>
                     draw_groundtruths ops g scalex scaley rest
                       (img\<lparr>drawn := drawn img @
                          [Rectangle (box2 ! 1, box2 ! 2) (box2 ! 3, box2 ! 4) (0, 0, 255) 2]\<rparr>)
                       lines1))))"

text \<open>
  The loop over the detections of one image. The line is written first, from the box as
  the decoder gave it; then \<^verbatim>\<open>box[2:] *= [scalex, scaley, scalex, scaley]\<close> scales the
  four coordinates in place, \<^verbatim>\<open>b = box[2:].astype(np.int)\<close> truncates them, the
  rectangle is drawn in blue and the confidence \<^verbatim>\<open>box[1]\<close> is written at its corner.
\<close>

fun draw_detections ::
  "'f float_ops \<Rightarrow> 'f globals \<Rightarrow> 'f \<Rightarrow> 'f \<Rightarrow> 'f list list \<Rightarrow> 'f image \<Rightarrow> 'f line list
     \<Rightarrow> (error + unit) \<times> 'f image \<times> 'f line list" where
  "draw_detections ops g scalex scaley [] img lines = (Inr (), img, lines)"
| "draw_detections ops g scalex scaley (box # rest) img lines =
     (if length box < 6 then (Inl IndexError, img, lines)
      else
        (let lines1 = lines @ [DetLine (trunc_int ops (box ! 0)) (box ! 1)
                                 (trunc_int ops (box ! 2)) (trunc_int ops (box ! 3))
                                 (trunc_int ops (box ! 4)) (trunc_int ops (box ! 5))] in
         if length box \<noteq> 6 then (Inl ValueError, img, lines1)
         else
           (let box1 = take 2 box @ map2 (fmul ops) (drop 2 box) [scalex, scaley, scalex, scaley] in
            case load_module_attr g ''np'' ''numpy'' ''int'' of
              Inl e \<Rightarrow> (Inl e, img, lines1)
            | Inr u \<Rightarrow>
                (let b = map (trunc_int ops) (drop 2 box1) in
                 case load_module_attr g ''cv2'' ''cv2'' ''rectangle'' of
                   Inl e \<Rightarrow> (Inl e, img, lines1)
                 | Inr u' \<Rightarrow>
                     (let img1 = img\<lparr>drawn := drawn img @
                                   [Rectangle (b ! 0, b ! 1) (b ! 2, b ! 3) (255, 0, 0) 2]\<rparr> in
                      case load_module_attr g ''cv2'' ''cv2'' ''putText'' of
                        Inl e \<Rightarrow> (Inl e, img1, lines1)
                      | Inr u'' \<Rightarrow>
                          draw_detections ops g scalex scaley rest
                            (img1\<lparr>drawn := drawn img1 @
                               [PutText (box1 ! 1) (b ! 2, b ! 3) 1 (0, 0, 255) 2]\<rparr>)
                            lines1)))))"

text \<open>
  Reading the original image and the two scale factors:
  \<^verbatim>\<open>img = cv2.imread(os.path.join(images_dir, filename))\<close>, \<^verbatim>\<open>h, w = img.shape[:2]\<close>,
  \<^verbatim>\<open>scaley, scalex = h / img_height, w / img_width\<close>. The result is the image, then
  \<open>scaley\<close>, then \<open>scalex\<close>.
\<close>

definition read_image ::
  "('w, 'f) eval_ext \<Rightarrow> 'f globals \<Rightarrow> string \<Rightarrow> error + 'f image \<times> 'f \<times> 'f" where
  "read_image ext g filename =
     (case load_module_attr g ''cv2'' ''cv2'' ''imread'' of
        Inl e \<Rightarrow> Inl e
      | Inr u1 \<Rightarrow>
     (case load_module_attr g ''os'' ''os'' ''path'' of
        Inl e \<Rightarrow> Inl e
      | Inr u2 \<Rightarrow>
     (case load_str g ''images_dir'' of
        Inl e \<Rightarrow> Inl e
      | Inr images_dir \<Rightarrow>
     (case imread ext (path_join images_dir filename) of
        None \<Rightarrow> Inl (AttributeError ''shape'')
      | Some (h, w) \<Rightarrow>
     (case load_number g ''img_height'' of
        Inl e \<Rightarrow> Inl e
      | Inr height \<Rightarrow>
     (case py_truediv (float_ops ext) (PyInt (int h)) height of
        Inl e \<Rightarrow> Inl e
      | Inr scaley \<Rightarrow>
     (case load_number g ''img_width'' of
        Inl e \<Rightarrow> Inl e
      | Inr width \<Rightarrow>
     (case py_truediv (float_ops ext) (PyInt (int w)) width of
        Inl e \<Rightarrow> Inl e
      | Inr scalex \<Rightarrow> Inr (\<lparr>img_h = h, img_w = w, drawn = []\<rparr>, scaley, scalex)))))))))"

text \<open>
  One round of the loop over \<^verbatim>\<open>zip(y_pred_decoded, batch_labels, batch_filenames)\<close>.
  A text file is recorded with the lines written to it, also when the loop that writes
  them raises.
\<close>

definition eval_image ::
  "('w, 'f) eval_ext \<Rightarrow> 'f globals \<Rightarrow> ('w, 'f) eval_obj
     \<Rightarrow> 'f list list \<times> 'f list list \<times> string \<Rightarrow> 'f eval_world \<Rightarrow> (error + unit) \<times> 'f eval_world" where
  "eval_image ext g self item w =
     (case item of (yp, label, filename) \<Rightarrow>
     (case read_image ext g filename of
        Inl e \<Rightarrow> (Inl e, w)
      | Inr (img, scaley, scalex) \<Rightarrow>
     (case load_module_attr g ''os'' ''os'' ''path'' of
        Inl e \<Rightarrow> (Inl e, w)
      | Inr u1 \<Rightarrow>
     (case getattr ''eval_cfg'' (e_eval_cfg self) of
        Inl e \<Rightarrow> (Inl e, w)
      | Inr p \<Rightarrow>
     (let gt_path = path_join (groundtruths p) (split_dot_first (basename filename) @ ''.txt'') in
      case draw_groundtruths (float_ops ext) g scalex scaley label img [] of
        (r1, img1, gt_lines) \<Rightarrow>
     (let w1 = w\<lparr>ew_files := ew_files w @ [(gt_path, gt_lines)]\<rparr> in
      case r1 of
        Inl e \<Rightarrow> (Inl e, w1)
      | Inr u2 \<Rightarrow>
     (let det_path = path_join (detections p) (split_dot_first (basename filename) @ ''.txt'') in
      case draw_detections (float_ops ext) g scalex scaley yp img1 [] of
        (r2, img2, det_lines) \<Rightarrow>
     (let w2 = w1\<lparr>ew_files := ew_files w1 @ [(det_path, det_lines)]\<rparr> in
      case r2 of
        Inl e \<Rightarrow> (Inl e, w2)
      | Inr u3 \<Rightarrow>
     (case load_module_attr g ''cv2'' ''cv2'' ''imwrite'' of
        Inl e \<Rightarrow> (Inl e, w2)
      | Inr u4 \<Rightarrow>
          (Inr (),
           w2\<lparr>ew_images := ew_images w2 @
                 [(path_join (debug_imgs p) (basename filename), img2)]\<rparr>))))))))))"

fun eval_images ::
  "('w, 'f) eval_ext \<Rightarrow> 'f globals \<Rightarrow> ('w, 'f) eval_obj
     \<Rightarrow> ('f list list \<times> 'f list list \<times> string) list \<Rightarrow> 'f eval_world
     \<Rightarrow> (error + unit) \<times> 'f eval_world" where
  "eval_images ext g self [] w = (Inr (), w)"
| "eval_images ext g self (item # rest) w =
     (case eval_image ext g self item w of
        (Inl e, w1) \<Rightarrow> (Inl e, w1)
      | (Inr u, w1) \<Rightarrow> eval_images ext g self rest w1)"

text \<open>
  The body of the loop over \<^verbatim>\<open>self.eval_loader\<close>: the batch goes through the model and
  the prediction of the whole batch is decoded by one call; \<^verbatim>\<open>len(batch_images)\<close> is
  the first dimension of the batch.
\<close>

definition eval_batch ::
  "('w, 'f) eval_ext \<Rightarrow> 'f globals \<Rightarrow> ('w, 'f) eval_obj \<Rightarrow> 'f sample \<Rightarrow> nat \<Rightarrow> 'f eval_world
     \<Rightarrow> (error + nat) \<times> 'f eval_world" where
  "eval_batch ext g self sample total_images w =
     (let batch_images = sample_image sample; batch_labels = sample_objs sample;
          batch_filenames = sample_filename sample in
      case load_str g ''device'' of
        Inl e \<Rightarrow> (Inl e, w)
      | Inr d \<Rightarrow>
     (case shape batch_images of
        [] \<Rightarrow> (Inl TypeError, w)
      | n # dims \<Rightarrow>
     (let total_images1 = total_images + n in
      case getattr ''model'' (e_model self) of
        Inl e \<Rightarrow> (Inl e, w)
      | Inr m \<Rightarrow>
     (let y_pred = forward ext m batch_images in
      case load_callable g ''decode_output'' of
        Inl e \<Rightarrow> (Inl e, w)
      | Inr u \<Rightarrow>
     (case getattr ''eval_cfg'' (e_eval_cfg self) of
        Inl e \<Rightarrow> (Inl e, w)
      | Inr p \<Rightarrow>
     (let y_pred_decoded = decode_output ext y_pred (threshold p) (iou_threshold p);
          w1 = w\<lparr>ew_decode_calls := ew_decode_calls w @
                 [DecodeCall [y_pred]
                    [(''conf_thresh'', threshold p), (''iou_thresh'', iou_threshold p)]]\<rparr> in
      case eval_images ext g self (zip y_pred_decoded (zip batch_labels batch_filenames)) w1 of
        (Inl e, w2) \<Rightarrow> (Inl e, w2)
      | (Inr u', w2) \<Rightarrow> (Inr total_images1, w2)))))))"

fun eval_batches ::
  "('w, 'f) eval_ext \<Rightarrow> 'f globals \<Rightarrow> ('w, 'f) eval_obj \<Rightarrow> 'f sample list \<Rightarrow> nat \<Rightarrow> 'f eval_world
     \<Rightarrow> (error + nat) \<times> 'f eval_world" where
  "eval_batches ext g self [] total_images w = (Inr total_images, w)"
| "eval_batches ext g self (sample # rest) total_images w =
     (case eval_batch ext g self sample total_images w of
        (Inl e, w1) \<Rightarrow> (Inl e, w1)
      | (Inr total_images1, w1) \<Rightarrow> eval_batches ext g self rest total_images1 w1)"

text \<open>
  \<^verbatim>\<open>Eval.run\<close>. Its first statement that looks anything up is
  \<^verbatim>\<open>font = cv2.FONT_HERSHEY_SIMPLEX\<close>; then the loader is read from the object.
\<close>

definition Eval_run ::
  "('w, 'f) eval_ext \<Rightarrow> 'f globals \<Rightarrow> ('w, 'f) eval_obj \<Rightarrow> 'f eval_world
     \<Rightarrow> (error + unit) \<times> 'f eval_world" where
  "Eval_run ext g self w =
     (case load_module_attr g ''cv2'' ''cv2'' ''FONT_HERSHEY_SIMPLEX'' of
        Inl e \<Rightarrow> (Inl e, w)
      | Inr font \<Rightarrow>
     (case getattr ''eval_loader'' (e_eval_loader self) of
        Inl e \<Rightarrow> (Inl e, w)
      | Inr ld \<Rightarrow>
     (case batches ext ld (ew_rng w) of (samples, seed') \<Rightarrow>
     (case eval_batches ext g self samples 0 (w\<lparr>ew_rng := seed'\<rparr>) of
        (Inl e, w1) \<Rightarrow> (Inl e, w1)
      | (Inr total_images, w1) \<Rightarrow> (Inr (), w1\<lparr>ew_stdout := ew_stdout w1 @ [total_images]\<rparr>)))))"

section \<open>Notions used in the statements, and concrete inputs\<close>

subsection \<open>Trainer\<close>

text \<open>The architecture \<^verbatim>\<open>build_model\<close> constructs for a recognised model name.\<close>

definition configured_arch :: "'f config \<Rightarrow> 'f arch" where
  "configured_arch c =
     (if model_name (train_cfg c) = ''SSDModel''
      then SSDModel (img_width c) (img_height c) (nclasses c) (scales c) (aspect_ratios c)
      else Vgg19BaseSSD (img_width c) (img_height c) (nclasses c) (scales c) (aspect_ratios c))"

text \<open>
  Reading the log of calls: how many times the anchor boxes were generated, the encoder
  calls with the encoder called and its argument, and the labels the criterion was given.
\<close>

fun anchor_generations :: "'f call list \<Rightarrow> nat" where
  "anchor_generations [] = 0"
| "anchor_generations (CallGenerateAnchors shapes scs ars # cs) = Suc (anchor_generations cs)"
| "anchor_generations (c # cs) = anchor_generations cs"

fun encoder_calls :: "'f call list \<Rightarrow> ('f label_encoder_obj \<times> 'f list list list) list" where
  "encoder_calls [] = []"
| "encoder_calls (CallEncoder enc objs # cs) = (enc, objs) # encoder_calls cs"
| "encoder_calls (c # cs) = encoder_calls cs"

fun criterion_labels :: "'f call list \<Rightarrow> 'f tensor list" where
  "criterion_labels [] = []"
| "criterion_labels (CallCriterion out labels # cs) = labels # criterion_labels cs"
| "criterion_labels (c # cs) = criterion_labels cs"

definition new_calls :: "'f world \<Rightarrow> 'f world \<Rightarrow> 'f call list" where
  "new_calls w w' = drop (length (calls w)) (calls w')"

definition constructed :: "'f label_encoder_obj \<Rightarrow> ('w, 'f) trainer \<Rightarrow> bool" where
  "constructed enc t =
     (label_encoder t = Some enc \<and> model t \<noteq> None \<and> criterion t \<noteq> None \<and> optimizer t \<noteq> None
      \<and> train_loader t \<noteq> None \<and> eval_loader t \<noteq> None)"

text \<open>
  Concrete inputs. The floats are reals here. The external functions are small stand-ins:
  the weights are a number, the loader yields two batches for training and one for
  evaluation, a checkpoint file unpickles to its first byte.
\<close>

definition example_ops :: "real float_ops" where
  "example_ops = \<lparr>fadd = (+), fmul = (*), fdiv = (/), float_of_int = of_int,
                   is_zero = (\<lambda>x. x = 0),
                   trunc_int = (\<lambda>x. if 0 \<le> x then \<lfloor>x\<rfloor> else \<lceil>x\<rceil>)\<rparr>"

definition example_sample :: "real sample" where
  "example_sample =
     \<lparr>sample_image = \<lparr>shape = [2, 3, 1, 1], data = [0, 0, 0, 1, 1, 1]\<rparr>,
      sample_objs = [[[1, 0, 0, 1, 1]], []],
      sample_filename = [''a.jpg'', ''b.jpg'']\<rparr>"

definition other_sample :: "real sample" where
  "other_sample =
     \<lparr>sample_image = \<lparr>shape = [1, 3, 1, 1], data = [1, 1, 1]\<rparr>,
      sample_objs = [[[2, 0, 0, 1, 1], [1, 0, 0, 1, 1]]],
      sample_filename = [''c.jpg'']\<rparr>"

definition example_ext :: "(nat, real) torch_ext" where
  "example_ext =
     \<lparr>float_ops = example_ops,
      cuda_is_available = False,
      dataset_len = (\<lambda>ds. 3),
      batches = (\<lambda>ld seed. (if ld_shuffle ld then [example_sample, other_sample] else [other_sample], Suc seed)),
      init_weights = (\<lambda>a seed. (seed, Suc seed)),
      unpickle = (\<lambda>b. case b of [] \<Rightarrow> Inl RuntimeError | x # xs \<Rightarrow> Inr x),
      load_state_dict = (\<lambda>m sd. Inr sd),
      randn = (\<lambda>dims seed. (replicate (prod_list dims) (real seed), Suc seed)),
      predictor_grid = (\<lambda>a dims. [drop 2 dims]),
      anchor_grid = (\<lambda>shapes scs ars. map (\<lambda>s. [1 / 2, 1 / 2, 1, 1]) shapes),
      adam_init = (\<lambda>wts. 0),
      forward = (\<lambda>m x. \<lparr>shape = [hd (shape x), 1], data = replicate (hd (shape x)) (real (weights m))\<rparr>),
      encode = (\<lambda>enc objs. \<lparr>shape = [length objs], data = map (\<lambda>boxes. real (length boxes)) objs\<rparr>),
      loss_value = (\<lambda>crit out labels. sum_list (data labels) + 1),
      adam_step = (\<lambda>crit m opt x labels. (Suc (weights m), Suc opt)),
      pickle = (\<lambda>wts. [wts]),
      format_checkpoint_file = (\<lambda>epoch tl el. ''ssd.pth'')\<rparr>"

definition example_cfg :: "real config" where
  "example_cfg =
     \<lparr>img_width = 1, img_height = 1, nclasses = 3, scales = [1 / 10, 9 / 10],
      aspect_ratios = [[1, 2]], variances = [1 / 10, 1 / 10, 1 / 5, 1 / 5],
      train_cfg = \<lparr>model_name = ''SSDModel'', checkpoint_dir = [''checkpoints''],
                   checkpoint_file = [''last.pth''], data_dir = ''data'',
                   train_file_path = ''train.txt'', eval_file_path = ''eval.txt'',
                   batch_size = 2, alpha = 1, neg_pos_ratio = 3, num_epochs = 1\<rparr>\<rparr>"

definition example_world :: "real world" where
  "example_world =
     \<lparr>fs = Dir [''checkpoints'' \<mapsto> Dir [''last.pth'' \<mapsto> File [7], ''old.pth'' \<mapsto> File [9]]],
      rng = 0, stdout = [], calls = []\<rparr>"

definition unknown_name_cfg :: "real config" where
  "unknown_name_cfg = example_cfg\<lparr>train_cfg := (train_cfg example_cfg)\<lparr>model_name := ''ResNetSSD''\<rparr>\<rparr>"

definition other_world :: "real world" where
  "other_world = \<lparr>fs = Dir Map.empty, rng = 5, stdout = [], calls = []\<rparr>"

text \<open>
  The Trainer that the constructor returns at the concrete inputs, the world it leaves,
  and external functions whose loaders yield no batch (an empty dataset).
\<close>

definition example_encoder :: "real label_encoder_obj" where
  "example_encoder =
     \<lparr>anchor_boxes = [[1 / 2, 1 / 2, 1, 1]], enc_nclasses = 3, enc_img_height = 1,
      enc_img_width = 1, variance = [1 / 10, 1 / 10, 1 / 5, 1 / 5]\<rparr>"

definition example_train_loader :: loader where
  "example_train_loader =
     \<lparr>ld_dataset = \<lparr>ds_data_dir = ''data'', ds_file_path = ''train.txt'',
         ds_transform = [SSDDataAugmentation 1 1
            [(''random_brightness'', [-48, 48, 0.5]),
             (''random_contrast'', [0.5, 1.8, 0.5]),
             (''random_saturation'', [0.5, 1.8, 0.5]),
             (''random_hue'', [0.5, 1.5, 0.5]),
             (''channel_shuffle'', [0.5]),
             (''random_translate'', [-0.2, 0.2, 0.5]),
             (''random_scale'', [0.7, 1.2, 0.5]),
             (''prob'', [0.8])] True, Transpose, Normalization2 127.5 127.5]\<rparr>,
      ld_batch_size = 2, ld_shuffle = True\<rparr>"

definition example_eval_loader :: loader where
  "example_eval_loader =
     \<lparr>ld_dataset = \<lparr>ds_data_dir = ''data'', ds_file_path = ''eval.txt'',
         ds_transform = [SSDDataAugmentation 1 1 [] False, Transpose, Normalization2 127.5 127.5]\<rparr>,
      ld_batch_size = 2, ld_shuffle = False\<rparr>"

definition example_trainer :: "(nat, real) trainer" where
  "example_trainer =
     \<lparr>cfg = example_cfg, train_loader = Some example_train_loader,
      eval_loader = Some example_eval_loader,
      model = Some \<lparr>arch = SSDModel 1 1 3 [1 / 10, 9 / 10] [[1, 2]], weights = 7, training = True\<rparr>,
      criterion = Some \<lparr>loss_alpha = 1, loss_neg_pos_ratio = 3\<rparr>,
      label_encoder = Some example_encoder, optimizer = Some 0\<rparr>"

definition constructed_world :: "real world" where
  "constructed_world =
     \<lparr>fs = Dir [''checkpoints'' \<mapsto> Dir Map.empty], rng = 2,
      stdout = [PrintLoaded 3 3, PrintLoading [''checkpoints'', ''last.pth'']],
      calls = [CallGetPredictorShapes \<lparr>shape = [1, 3, 1, 1], data = replicate 3 1\<rparr>,
               CallGenerateAnchors [[1, 1]] [1 / 10, 9 / 10] [[1, 2]]]\<rparr>"

definition empty_loader_ext :: "(nat, real) torch_ext" where
  "empty_loader_ext = example_ext\<lparr>batches := (\<lambda>ld seed. ([], seed))\<rparr>"




subsection \<open>Eval\<close>

text \<open>The call of line 37 for one batch of the loader.\<close>

definition batch_decode_call ::
  "('w, 'f) eval_ext \<Rightarrow> ('w, 'f) ssd_model \<Rightarrow> 'f eval_params \<Rightarrow> 'f sample \<Rightarrow> 'f decode_call" where
  "batch_decode_call ext m p s =
     DecodeCall [forward ext m (sample_image s)]
       [(''conf_thresh'', threshold p), (''iou_thresh'', iou_threshold p)]"

text \<open>
  The factor from the model's input resolution to the original image, along one axis:
  the original extent over the configured one.
\<close>

definition original_scale :: "'f float_ops \<Rightarrow> nat \<Rightarrow> 'f pynum \<Rightarrow> 'f" where
  "original_scale ops original configured =
     fdiv ops (float_of_int ops (int original)) (to_float ops configured)"

text \<open>
  A detection \<^verbatim>\<open>[class, confidence, xmin, ymin, xmax, ymax]\<close> with its four
  coordinates multiplied by the factors of their axes and truncated, as the blue
  rectangle of thickness 2 that line 57 draws.
\<close>

definition rescaled_rectangle :: "'f float_ops \<Rightarrow> 'f \<Rightarrow> 'f \<Rightarrow> 'f list \<Rightarrow> 'f drawing" where
  "rescaled_rectangle ops scalex scaley box =
     Rectangle (trunc_int ops (fmul ops (box ! 2) scalex), trunc_int ops (fmul ops (box ! 3) scaley))
               (trunc_int ops (fmul ops (box ! 4) scalex), trunc_int ops (fmul ops (box ! 5) scaley))
               (255, 0, 0) 2"

fun is_detection_rectangle :: "'f drawing \<Rightarrow> bool" where
  "is_detection_rectangle (Rectangle p q colour thickness) = (colour = (255, 0, 0))"
| "is_detection_rectangle (PutText txt p fontscale colour thickness) = False"

definition detection_rectangles :: "'f image \<Rightarrow> 'f drawing list" where
  "detection_rectangles img = filter is_detection_rectangle (drawn img)"

text \<open>
  The items the inner loop of \<^verbatim>\<open>run\<close> iterates over for one batch, and for all
  batches in order: the detections of an image as the decoder returned them, its labels
  and its file name.
\<close>

definition batch_items ::
  "('w, 'f) eval_ext \<Rightarrow> ('w, 'f) ssd_model \<Rightarrow> 'f eval_params \<Rightarrow> 'f sample
     \<Rightarrow> ('f list list \<times> 'f list list \<times> string) list" where
  "batch_items ext m p s =
     zip (decode_output ext (forward ext m (sample_image s)) (threshold p) (iou_threshold p))
         (zip (sample_objs s) (sample_filename s))"

definition decoded_items ::
  "('w, 'f) eval_ext \<Rightarrow> ('w, 'f) ssd_model \<Rightarrow> 'f eval_params \<Rightarrow> 'f sample list
     \<Rightarrow> ('f list list \<times> 'f list list \<times> string) list" where
  "decoded_items ext m p samples = concat (map (batch_items ext m p) samples)"

text \<open>
  An image written by \<^verbatim>\<open>run\<close> for an item: it is the original image read from
  \<^verbatim>\<open>images_dir\<close>, and its blue rectangles are the item's detections, in order, each
  rescaled by width over \<^verbatim>\<open>img_width\<close> and height over \<^verbatim>\<open>img_height\<close>.
\<close>

definition drawn_rescaled ::
  "('w, 'f) eval_ext \<Rightarrow> 'f globals \<Rightarrow> 'f eval_params
     \<Rightarrow> 'f list list \<times> 'f list list \<times> string \<Rightarrow> string \<times> 'f image \<Rightarrow> bool" where
  "drawn_rescaled ext g p item written =
     (case (item, written) of ((yp, label, filename), (target, img)) \<Rightarrow>
        target = path_join (debug_imgs p) (basename filename)
        \<and> (case (g ''images_dir'', g ''img_height'', g ''img_width'') of
             (Some (PyStr images_dir), Some (PyNumber height), Some (PyNumber width)) \<Rightarrow>
               imread ext (path_join images_dir filename) = Some (img_h img, img_w img)
               \<and> detection_rectangles img
                   = map (rescaled_rectangle (float_ops ext)
                            (original_scale (float_ops ext) (img_w img) width)
                            (original_scale (float_ops ext) (img_h img) height)) yp
           | _ \<Rightarrow> False))"

text \<open>
  Concrete inputs for \<^verbatim>\<open>Eval.run\<close>: a module into which the names that eval.py
  leaves unbound were put, an object with the three attributes assigned, a decoder that
  returns one detection for every image, and three images on disk of different sizes.
\<close>

definition example_eval_ext :: "(nat, real) eval_ext" where
  "example_eval_ext =
     \<lparr>float_ops = example_ops,
      cuda_is_available = False,
      dataset_len = (\<lambda>ds. 3),
      batches = (\<lambda>ld seed. ([example_sample, other_sample], seed)),
      init_weights = (\<lambda>a seed. (seed, Suc seed)),
      unpickle = (\<lambda>b. case b of [] \<Rightarrow> Inl RuntimeError | x # xs \<Rightarrow> Inr x),
      load_state_dict = (\<lambda>m sd. Inr sd),
      randn = (\<lambda>dims seed. (replicate (prod_list dims) (real seed), Suc seed)),
      predictor_grid = (\<lambda>a dims. [drop 2 dims]),
      anchor_grid = (\<lambda>shapes scs ars. map (\<lambda>s. [1 / 2, 1 / 2, 1, 1]) shapes),
      adam_init = (\<lambda>wts. 0),
      forward = (\<lambda>m x. \<lparr>shape = [hd (shape x), 1], data = map (\<lambda>i. real (weights m)) [0..<hd (shape x)]\<rparr>),
      encode = (\<lambda>enc objs. \<lparr>shape = [length objs], data = map (\<lambda>boxes. real (length boxes)) objs\<rparr>),
      loss_value = (\<lambda>crit out labels. sum_list (data labels) + 1),
      adam_step = (\<lambda>crit m opt x labels. (Suc (weights m), Suc opt)),
      pickle = (\<lambda>wts. [wts]),
      format_checkpoint_file = (\<lambda>epoch tl el. ''ssd.pth''),
      decode_output = (\<lambda>y ct it. map (\<lambda>v. [[1, 9 / 10, 1, 2, 3, 4]]) (data y)),
      imread = (\<lambda>name. if name = ''imgs/a.jpg'' then Some (4, 6)
                        else if name = ''imgs/b.jpg'' then Some (2, 2)
                        else if name = ''imgs/c.jpg'' then Some (1, 3) else None)\<rparr>"

definition example_globals :: "real globals" where
  "example_globals =
     eval_module_globals
       (''cv2'' \<mapsto> PyModule ''cv2'', ''os'' \<mapsto> PyModule ''os'', ''np'' \<mapsto> PyModule ''numpy'',
        ''device'' \<mapsto> PyStr ''cpu'', ''images_dir'' \<mapsto> PyStr ''imgs'',
        ''img_height'' \<mapsto> PyNumber (PyInt 2), ''img_width'' \<mapsto> PyNumber (PyInt 2))"

definition example_eval_params :: "real eval_params" where
  "example_eval_params =
     \<lparr>threshold = 1 / 2, iou_threshold = 9 / 20, groundtruths = ''gt'',
      detections = ''det'', debug_imgs = ''debug''\<rparr>"

definition example_eval_model :: "(nat, real) ssd_model" where
  "example_eval_model = \<lparr>arch = SSDModel 2 2 3 [1 / 10, 9 / 10] [[1, 2]], weights = 7, training = True\<rparr>"

definition example_eval_obj :: "(nat, real) eval_obj" where
  "example_eval_obj =
     \<lparr>e_cfg = \<lparr>ev_img_width = 2, ev_img_height = 2, ev_nclasses = 3, ev_scales = [1 / 10, 9 / 10],
               ev_aspect_ratios = [[1, 2]],
               ev_eval_cfg = \<lparr>ed_data_dir = ''data'', ed_eval_file_path = ''eval.txt'',
                               ed_batch_size = 2\<rparr>\<rparr>,
      e_model = Some example_eval_model,
      e_eval_loader = Some example_eval_loader,
      e_eval_cfg = Some example_eval_params\<rparr>"

definition example_eval_world :: "real eval_world" where
  "example_eval_world =
     \<lparr>ew_rng = 0, ew_files = [], ew_images = [], ew_stdout = [], ew_decode_calls = []\<rparr>"


text \<open>The world after \<^verbatim>\<open>run\<close> at these inputs.\<close>

definition example_eval_result :: "real eval_world" where
  "example_eval_result =
     \<lparr>ew_rng = 0,
      ew_files =
        [(''gt/a.txt'', [GtLine 1 0 0 1 1]),
         (''det/a.txt'', [DetLine 1 (9 / 10) 1 2 3 4]),
         (''gt/b.txt'', []),
         (''det/b.txt'', [DetLine 1 (9 / 10) 1 2 3 4]),
         (''gt/c.txt'', [GtLine 2 0 0 1 1, GtLine 1 0 0 1 1]),
         (''det/c.txt'', [DetLine 1 (9 / 10) 1 2 3 4])],
      ew_images =
        [(''debug/a.jpg'',
          \<lparr>img_h = 4, img_w = 6,
            drawn = [Rectangle (0, 0) (3, 2) (0, 0, 255) 2,
                     Rectangle (3, 4) (9, 8) (255, 0, 0) 2,
                     PutText (9 / 10) (9, 8) 1 (0, 0, 255) 2]\<rparr>),
         (''debug/b.jpg'',
          \<lparr>img_h = 2, img_w = 2,
            drawn = [Rectangle (1, 2) (3, 4) (255, 0, 0) 2,
                     PutText (9 / 10) (3, 4) 1 (0, 0, 255) 2]\<rparr>),
         (''debug/c.jpg'',
          \<lparr>img_h = 1, img_w = 3,
            drawn = [Rectangle (0, 0) (1, 0) (0, 0, 255) 2,
                     Rectangle (0, 0) (1, 0) (0, 0, 255) 2,
                     Rectangle (1, 1) (4, 2) (255, 0, 0) 2,
                     PutText (9 / 10) (4, 2) 1 (0, 0, 255) 2]\<rparr>)],
      ew_stdout = [3],
      ew_decode_calls =
        [DecodeCall [\<lparr>shape = [2, 1], data = [7, 7]\<rparr>]
           [(''conf_thresh'', 1 / 2), (''iou_thresh'', 9 / 20)],
         DecodeCall [\<lparr>shape = [1, 1], data = [7]\<rparr>]
           [(''conf_thresh'', 1 / 2), (''iou_thresh'', 9 / 20)]]\<rparr>"

section \<open>Properties\<close>

subsection \<open>The file system\<close>

lemma lookup_remove_tree: "p \<noteq> [] \<Longrightarrow> lookup p (remove_tree p t) = None"
proof (induction p arbitrary: t)
  case Nil
  then show ?case by simp
next
  case (Cons c cs)
  show ?case
  proof (cases t)
    case (File b)
    then show ?thesis by simp
  next
    case (Dir es)
    show ?thesis
    proof (cases "cs = []")
      case True
      with Dir show ?thesis by simp
    next
      case False
      with Dir Cons.IH show ?thesis by (simp split: option.splits)
    qed
  qed
qed

lemma makedirs_fresh:
  "lookup p t = None \<or> t = Dir Map.empty \<Longrightarrow> makedirs p t = Inr t' \<Longrightarrow>
   lookup p t' = Some (Dir Map.empty)"
proof (induction p arbitrary: t t')
  case Nil
  then show ?case by auto
next
  case (Cons c cs)
  from Cons.prems(2) obtain es where t: "t = Dir es"
    by (cases t) auto
  define sub where "sub = (case es c of None \<Rightarrow> Dir Map.empty | Some m \<Rightarrow> m)"
  from Cons.prems(2) t obtain m' where m': "makedirs cs sub = Inr m'" and t': "t' = Dir (es(c \<mapsto> m'))"
    by (auto simp: sub_def split: sum.splits)
  from Cons.prems(1) t have "lookup cs sub = None \<or> sub = Dir Map.empty"
    by (auto simp: sub_def split: option.splits)
  from Cons.IH[OF this m'] t' show ?case by simp
qed

lemma makedirs_on_file: "lookup p t = Some (File b) \<Longrightarrow> \<exists>e. makedirs p t = Inl e"
proof (induction p arbitrary: t)
  case Nil
  then show ?case by simp
next
  case (Cons c cs)
  then show ?case
    by (cases t) (auto split: option.splits sum.splits, fastforce)
qed

subsection \<open>eval.py\<close>

text \<open>
  C8. For every configuration, \<^verbatim>\<open>Eval(cfg).run()\<close> raises before any detection is
  produced. With the names eval.py binds, the first statement of \<^verbatim>\<open>run\<close> raises
  NameError for \<^verbatim>\<open>cv2\<close> and the world is as it was (no decoder call, no file, no image).
  Whatever else is put into the module's globals, \<^verbatim>\<open>run\<close> on the object the
  constructor built still raises a NameError or an AttributeError there or at
  \<^verbatim>\<open>self.eval_loader\<close>, which \<^verbatim>\<open>run\<close> reads and never assigns. None of \<^verbatim>\<open>cv2\<close>,
  \<^verbatim>\<open>os\<close>, \<^verbatim>\<open>np\<close>, \<^verbatim>\<open>device\<close>, \<^verbatim>\<open>images_dir\<close>, \<^verbatim>\<open>img_height\<close>, \<^verbatim>\<open>img_width\<close> is
  bound by the module, and the constructor leaves \<^verbatim>\<open>model\<close>, \<^verbatim>\<open>eval_loader\<close> and
  \<^verbatim>\<open>eval_cfg\<close> unassigned.
\<close>

theorem Eval_run_raises_before_any_detection:
  "Eval_run ext (eval_module_globals :: 'f globals) (Eval_init c) w = (Inl (NameError ''cv2''), w)
   \<and> (\<exists>e. Eval_run ext (g :: 'f globals) (Eval_init c) w = (Inl e, w)
          \<and> (e = NameError ''cv2'' \<or> e = AttributeError ''FONT_HERSHEY_SIMPLEX''
               \<or> e = AttributeError ''eval_loader''))
   \<and> map (eval_module_globals :: 'f globals)
        [''cv2'', ''os'', ''np'', ''device'', ''images_dir'', ''img_height'', ''img_width'']
      = [None, None, None, None, None, None, None]
   \<and> e_model (Eval_init c :: ('w, 'f) eval_obj) = None
   \<and> e_eval_loader (Eval_init c :: ('w, 'f) eval_obj) = None
   \<and> e_eval_cfg (Eval_init c :: ('w, 'f) eval_obj) = None"
proof -
  have a: "Eval_run ext (eval_module_globals :: 'f globals) (Eval_init c) w = (Inl (NameError ''cv2''), w)"
    by (simp add: Eval_run_def load_module_attr_def load_global_def eval_module_globals_def)
  have b: "\<exists>e. Eval_run ext g (Eval_init c) w = (Inl e, w)
          \<and> (e = NameError ''cv2'' \<or> e = AttributeError ''FONT_HERSHEY_SIMPLEX''
               \<or> e = AttributeError ''eval_loader'')"
    by (simp add: Eval_run_def load_module_attr_def load_global_def Eval_init_def getattr_def
          split: option.splits)
  have c: "map (eval_module_globals :: 'f globals)
        [''cv2'', ''os'', ''np'', ''device'', ''images_dir'', ''img_height'', ''img_width'']
      = [None, None, None, None, None, None, None]"
    by (simp add: eval_module_globals_def)
  show ?thesis using a b c by (simp add: Eval_init_def)
qed

subsection \<open>Trainer: construction\<close>

lemmas example_defs = example_ops_def example_sample_def other_sample_def example_ext_def
  example_cfg_def example_world_def

lemmas trainer_defs = Trainer_init_def prepare_data_def parse_config_def build_model_def
  Let_def py_print_def log_call_def getattr_def os_path_exists_def os_path_isdir_def
  os_path_join_def torch_load_def torch_randn_def shutil_rmtree_def
  get_predictor_shapes_def generate_anchor_boxes_model_def


lemma build_model_unknown_name:
  assumes "model_name (train_cfg (cfg self)) \<noteq> ''SSDModel''"
      and "model_name (train_cfg (cfg self)) \<noteq> ''Vgg19BaseSSD''"
  shows "build_model ext self w = (Inl (Exception ''Model name not found!''), self, w)"
  using assms by (simp add: build_model_def Let_def)

lemma build_model_frame:
  assumes "build_model ext self w = (r, self1, w1)"
  shows "cfg self1 = cfg self \<and> train_loader self1 = train_loader self
       \<and> eval_loader self1 = eval_loader self \<and> criterion self1 = criterion self
       \<and> label_encoder self1 = label_encoder self \<and> optimizer self1 = optimizer self
       \<and> fs w1 = fs w \<and> calls w1 = calls w"
  using assms
  by (auto simp: build_model_def Let_def py_print_def split: if_splits prod.splits sum.splits)

lemma build_model_success:
  assumes "build_model ext self w = (Inr u, self1, w1)"
  shows "\<exists>m. model self1 = Some m \<and> arch m = configured_arch (cfg self)
           \<and> rng w1 = snd (init_weights ext (configured_arch (cfg self)) (rng w))"
  using assms
  by (auto simp: build_model_def Let_def py_print_def configured_arch_def
           split: if_splits prod.splits sum.splits)

lemma checkpoint_dir_step:
  assumes step: "(if os_path_exists t d \<and> os_path_isdir t d then shutil_rmtree d t else (Inr (), t)) = (Inr u, t1)"
      and mk: "makedirs d t1 = Inr t2"
  shows "lookup d t2 = Some (Dir Map.empty)"
proof (cases "os_path_exists t d \<and> os_path_isdir t d")
  case True
  with step have "d \<noteq> []" and "t1 = remove_tree d t"
    by (auto simp: shutil_rmtree_def split: if_splits)
  then have "lookup d t1 = None"
    by (simp add: lookup_remove_tree)
  with mk makedirs_fresh[of d t1 t2] show ?thesis
    by simp
next
  case False
  with step have t1: "t1 = t" by simp
  show ?thesis
  proof (cases "lookup d t")
    case None
    with mk t1 makedirs_fresh[of d t t2] show ?thesis by simp
  next
    case (Some n)
    show ?thesis
    proof (cases n)
      case (File b)
      with Some makedirs_on_file[of d t b] mk t1 show ?thesis by auto
    next
      case (Dir es)
      with Some False show ?thesis
        by (simp add: os_path_exists_def os_path_isdir_def)
    qed
  qed
qed

lemma parse_config_success:
  assumes "parse_config ext self w = (Inr u, self', w')"
  shows "\<exists>self1 w1 m x seed'.
           build_model ext self w = (Inr (), self1, w1) \<and> model self1 = Some m
         \<and> torch_randn ext [1, 3, img_height (cfg self), img_width (cfg self)] (rng w1) = (x, seed')
         \<and> self' = self1\<lparr>criterion := Some \<lparr>loss_alpha = alpha (train_cfg (cfg self)),
                                              loss_neg_pos_ratio = neg_pos_ratio (train_cfg (cfg self))\<rparr>,
                           label_encoder := Some \<lparr>anchor_boxes =
                               generate_anchor_boxes_model ext (get_predictor_shapes ext m x)
                                 (scales (cfg self)) (aspect_ratios (cfg self)),
                             enc_nclasses = nclasses (cfg self), enc_img_height = img_height (cfg self),
                             enc_img_width = img_width (cfg self), variance = variances (cfg self)\<rparr>,
                           optimizer := Some (adam_init ext (weights m))\<rparr>
         \<and> calls w' = calls w @ [CallGetPredictorShapes x,
               CallGenerateAnchors (get_predictor_shapes ext m x) (scales (cfg self)) (aspect_ratios (cfg self))]
         \<and> rng w' = seed'
         \<and> lookup (checkpoint_dir (train_cfg (cfg self))) (fs w') = Some (Dir Map.empty)"
proof -
  obtain r1 self1 w1 where bm: "build_model ext self w = (r1, self1, w1)"
    by (cases "build_model ext self w") auto
  from assms bm have r1: "r1 = Inr ()"
    by (cases r1) (auto simp: parse_config_def)
  from build_model_frame[OF bm] have fr: "cfg self = cfg self1" and frc: "calls w1 = calls w"
    by auto
  from build_model_success[OF bm[unfolded r1]] obtain m where m: "model self1 = Some m"
    by auto
  obtain x seed' where rn: "torch_randn ext [1, 3, img_height (cfg self1), img_width (cfg self1)] (rng w1) = (x, seed')"
    by (cases "torch_randn ext [1, 3, img_height (cfg self1), img_width (cfg self1)] (rng w1)") auto
  let ?d = "checkpoint_dir (train_cfg (cfg self1))"
  obtain r2 t1 where st: "(if os_path_exists (fs w1) ?d \<and> os_path_isdir (fs w1) ?d
       then shutil_rmtree ?d (fs w1) else (Inr (), fs w1)) = (r2, t1)"
    by (cases "(if os_path_exists (fs w1) ?d \<and> os_path_isdir (fs w1) ?d
       then shutil_rmtree ?d (fs w1) else (Inr (), fs w1))") auto
  from assms bm r1 m rn st have r2: "r2 = Inr ()"
    by (cases r2) (auto simp: parse_config_def Let_def getattr_def log_call_def cong: if_cong)
  from assms bm r1 m rn st r2 obtain t2 where mk: "makedirs ?d t1 = Inr t2"
    by (cases "makedirs ?d t1") (auto simp: parse_config_def Let_def getattr_def log_call_def cong: if_cong)
  from checkpoint_dir_step[OF st[unfolded r2] mk] have dir: "lookup ?d t2 = Some (Dir Map.empty)" .
  show ?thesis
    unfolding fr
    using assms bm r1 frc m rn st r2 mk dir
    by (auto simp: parse_config_def Let_def getattr_def log_call_def cong: if_cong)
qed

lemma prepare_data_frame:
  assumes "prepare_data ext self w = (r, self1, w1)"
  shows "r = Inr () \<and> cfg self1 = cfg self \<and> model self1 = model self
       \<and> criterion self1 = criterion self \<and> label_encoder self1 = label_encoder self
       \<and> optimizer self1 = optimizer self
       \<and> fs w1 = fs w \<and> rng w1 = rng w \<and> calls w1 = calls w"
  using assms by (auto simp: prepare_data_def Let_def py_print_def)

lemma Trainer_init_steps:
  "\<exists>self0 w0. Trainer_init ext c w = parse_config ext self0 w0
      \<and> cfg self0 = c \<and> model self0 = None \<and> fs w0 = fs w \<and> rng w0 = rng w \<and> calls w0 = calls w"
proof -
  let ?self = "\<lparr>cfg = c, train_loader = None, eval_loader = None, model = None,
                  criterion = None, label_encoder = None, optimizer = None\<rparr> :: ('a, 'b) trainer"
  obtain r self0 w0 where pd: "prepare_data ext ?self w = (r, self0, w0)"
    by (cases "prepare_data ext ?self w") auto
  from prepare_data_frame[OF pd] have fr: "r = Inr ()" "cfg self0 = c" "model self0 = None"
      "fs w0 = fs w" "rng w0 = rng w" "calls w0 = calls w"
    by auto
  from pd fr(1) have "Trainer_init ext c w = parse_config ext self0 w0"
    by (simp add: Trainer_init_def)
  with fr show ?thesis by blast
qed

lemma build_model_loads_existing_file:
  assumes bm: "build_model ext self w = (Inr u, self1, w1)"
      and ex: "lookup (os_path_join (checkpoint_dir (train_cfg (cfg self)))
                   (checkpoint_file (train_cfg (cfg self)))) (fs w) = Some (File b)"
  shows "\<exists>sd wts. unpickle ext b = Inr sd
           \<and> load_state_dict ext \<lparr>arch = configured_arch (cfg self),
                 weights = fst (init_weights ext (configured_arch (cfg self)) (rng w)),
                 training = True\<rparr> sd = Inr wts
           \<and> model self1 = Some \<lparr>arch = configured_arch (cfg self), weights = wts, training = True\<rparr>"
  using assms
  by (auto simp: build_model_def Let_def py_print_def configured_arch_def os_path_exists_def
        torch_load_def split: if_splits prod.splits sum.splits)


lemma parse_config_after_build:
  assumes bm: "build_model ext self w = (Inr u, self1, w1)"
      and pc: "parse_config ext self w = (r, self', w')"
  shows "model self' = model self1 \<and> stdout w' = stdout w1
       \<and> (\<exists>x shapes. calls w' = calls w @ [CallGetPredictorShapes x,
              CallGenerateAnchors shapes (scales (cfg self)) (aspect_ratios (cfg self))])"
proof -
  from build_model_frame[OF bm] have fr: "cfg self = cfg self1" and frc: "calls w1 = calls w"
    by auto
  from build_model_success[OF bm] obtain m where m: "model self1 = Some m"
    by auto
  show ?thesis
    unfolding fr
    using pc bm frc m
    by (auto simp: parse_config_def Let_def getattr_def log_call_def
          split: prod.splits sum.splits if_splits)
qed

text \<open>
  C2. A configuration error is fatal at construction: when the configured model name is
  neither \<^verbatim>\<open>SSDModel\<close> nor \<^verbatim>\<open>Vgg19BaseSSD\<close>, \<^verbatim>\<open>Trainer.__init__\<close> raises the
  exception of \<^verbatim>\<open>build_model\<close>. No model was assigned, no call into the model, the
  encoder or the criterion was made, the random generator was not advanced (no loader
  was iterated) and the file system is untouched: no image was processed.
\<close>

theorem unknown_model_name_aborts_construction:
  assumes "model_name (train_cfg c) \<noteq> ''SSDModel''"
      and "model_name (train_cfg c) \<noteq> ''Vgg19BaseSSD''"
  shows "\<exists>self' w'. Trainer_init ext c w = (Inl (Exception ''Model name not found!''), self', w')
           \<and> model self' = None \<and> calls w' = calls w \<and> rng w' = rng w \<and> fs w' = fs w"
proof -
  obtain self0 w0 where i: "Trainer_init ext c w = parse_config ext self0 w0"
      and fr: "cfg self0 = c" "model self0 = None" "fs w0 = fs w" "rng w0 = rng w" "calls w0 = calls w"
    using Trainer_init_steps[of ext c w] by blast
  from assms fr(1) have "build_model ext self0 w0 = (Inl (Exception ''Model name not found!''), self0, w0)"
    by (simp add: build_model_unknown_name)
  then have "parse_config ext self0 w0 = (Inl (Exception ''Model name not found!''), self0, w0)"
    by (simp add: parse_config_def)
  with i fr show ?thesis by simp
qed

text \<open>
  C9. Constructing a Trainer is destructive to prior checkpoints: after every
  \<^verbatim>\<open>Trainer.__init__\<close> that returns, the checkpoint directory exists and is empty; and
  when the configured checkpoint file existed before, the model holds the weights
  loaded from it, so the file was read before the directory was removed.
\<close>

theorem construction_empties_checkpoint_dir:
  assumes "Trainer_init ext c w = (Inr u, t, w')"
  shows "lookup (checkpoint_dir (train_cfg c)) (fs w') = Some (Dir Map.empty)
       \<and> (\<forall>b. lookup (os_path_join (checkpoint_dir (train_cfg c)) (checkpoint_file (train_cfg c))) (fs w)
                 = Some (File b) \<longrightarrow>
             (\<exists>sd wts. unpickle ext b = Inr sd
                \<and> load_state_dict ext \<lparr>arch = configured_arch c,
                      weights = fst (init_weights ext (configured_arch c) (rng w)),
                      training = True\<rparr> sd = Inr wts
                \<and> model t = Some \<lparr>arch = configured_arch c, weights = wts, training = True\<rparr>))"
proof -
  obtain self0 w0 where i: "Trainer_init ext c w = parse_config ext self0 w0"
      and fr: "cfg self0 = c" "model self0 = None" "fs w0 = fs w" "rng w0 = rng w" "calls w0 = calls w"
    using Trainer_init_steps[of ext c w] by blast
  from assms i have pc: "parse_config ext self0 w0 = (Inr u, t, w')" by simp
  from parse_config_success[OF pc] fr(1) obtain self1 w1 where
      bm: "build_model ext self0 w0 = (Inr (), self1, w1)"
      and dir: "lookup (checkpoint_dir (train_cfg c)) (fs w') = Some (Dir Map.empty)"
    by auto
  from parse_config_after_build[OF bm pc] have mt: "model t = model self1" by simp
  have "\<exists>sd wts. unpickle ext b = Inr sd
                \<and> load_state_dict ext \<lparr>arch = configured_arch c,
                      weights = fst (init_weights ext (configured_arch c) (rng w)),
                      training = True\<rparr> sd = Inr wts
                \<and> model t = Some \<lparr>arch = configured_arch c, weights = wts, training = True\<rparr>"
    if "lookup (os_path_join (checkpoint_dir (train_cfg c)) (checkpoint_file (train_cfg c))) (fs w)
                 = Some (File b)" for b
    using build_model_loads_existing_file[OF bm, of b] that fr mt by simp
  with dir show ?thesis by blast
qed




text \<open>
  C4. Anchor generation is deterministic: two constructions with the same configuration
  give the same anchor boxes, whatever the state of the random generator and of the file
  system each starts from. The boxes are a function of the configured architecture, the
  shape \<^verbatim>\<open>(1, 3, img_height, img_width)\<close> of the random tensor, the scales and the
  aspect ratios; the values \<^verbatim>\<open>torch.randn\<close> drew do not enter.
\<close>

theorem anchor_generation_deterministic:
  assumes "Trainer_init ext c w1 = (Inr u1, t1, w1')"
      and "Trainer_init ext c w2 = (Inr u2, t2, w2')"
  shows "map_option anchor_boxes (label_encoder t1) =
           Some (anchor_grid ext (predictor_grid ext (configured_arch c) [1, 3, img_height c, img_width c])
                   (scales c) (aspect_ratios c))
       \<and> map_option anchor_boxes (label_encoder t2) = map_option anchor_boxes (label_encoder t1)"
proof -
  have key: "map_option anchor_boxes (label_encoder t) =
           Some (anchor_grid ext (predictor_grid ext (configured_arch c) [1, 3, img_height c, img_width c])
                   (scales c) (aspect_ratios c))"
    if init: "Trainer_init ext c w = (Inr u, t, w')" for w u t w'
  proof -
    obtain self0 w0 where i: "Trainer_init ext c w = parse_config ext self0 w0"
      and fr: "cfg self0 = c"
      using Trainer_init_steps[of ext c w] by blast
    from init i have pc: "parse_config ext self0 w0 = (Inr u, t, w')" by simp
    from parse_config_success[OF pc] obtain self1 w1 m x seed' where
        bm: "build_model ext self0 w0 = (Inr (), self1, w1)" and m: "model self1 = Some m"
        and rn: "torch_randn ext [1, 3, img_height (cfg self0), img_width (cfg self0)] (rng w1) = (x, seed')"
        and le: "label_encoder t = Some \<lparr>anchor_boxes =
                               generate_anchor_boxes_model ext (get_predictor_shapes ext m x)
                                 (scales (cfg self0)) (aspect_ratios (cfg self0)),
                             enc_nclasses = nclasses (cfg self0), enc_img_height = img_height (cfg self0),
                             enc_img_width = img_width (cfg self0), variance = variances (cfg self0)\<rparr>"
      by auto
    from build_model_success[OF bm] m have am: "arch m = configured_arch (cfg self0)" by auto
    from rn have sx: "shape x = [1, 3, img_height (cfg self0), img_width (cfg self0)]"
      by (auto simp: torch_randn_def split: prod.splits)
    from le am sx fr show ?thesis
      by (simp add: generate_anchor_boxes_model_def get_predictor_shapes_def)
  qed
  from key[OF assms(1)] key[OF assms(2)] show ?thesis by auto
qed

text \<open>The construction theorems at the concrete inputs.\<close>

theorem unknown_model_name_aborts_construction_witness:
  "model_name (train_cfg unknown_name_cfg) \<noteq> ''SSDModel''
   \<and> model_name (train_cfg unknown_name_cfg) \<noteq> ''Vgg19BaseSSD''
   \<and> (\<exists>self' w'. Trainer_init example_ext unknown_name_cfg example_world
                     = (Inl (Exception ''Model name not found!''), self', w')
          \<and> model self' = None \<and> calls w' = calls example_world
          \<and> rng w' = rng example_world \<and> fs w' = fs example_world)"
proof -
  have a: "model_name (train_cfg unknown_name_cfg) \<noteq> ''SSDModel''"
    by (simp add: unknown_name_cfg_def example_cfg_def)
  have b: "model_name (train_cfg unknown_name_cfg) \<noteq> ''Vgg19BaseSSD''"
    by (simp add: unknown_name_cfg_def example_cfg_def)
  from unknown_model_name_aborts_construction[OF a b, of example_ext example_world] a b
  show ?thesis by blast
qed

lemma example_init_returns: "fst (Trainer_init example_ext example_cfg example_world) = Inr ()"
  by (simp add: example_defs trainer_defs)

lemma other_init_returns: "fst (Trainer_init example_ext example_cfg other_world) = Inr ()"
  by (simp add: example_defs other_world_def trainer_defs)

theorem construction_empties_checkpoint_dir_witness:
  "fst (Trainer_init example_ext example_cfg example_world) = Inr ()
   \<and> lookup [''checkpoints'', ''old.pth''] (fs example_world) = Some (File [9])
   \<and> lookup [''checkpoints''] (fs (snd (snd (Trainer_init example_ext example_cfg example_world))))
       = Some (Dir Map.empty)
   \<and> map_option weights (model (fst (snd (Trainer_init example_ext example_cfg example_world)))) = Some 7"
proof -
  obtain t w' where i: "Trainer_init example_ext example_cfg example_world = (Inr (), t, w')"
    using example_init_returns
    by (cases "Trainer_init example_ext example_cfg example_world") auto
  have f: "lookup (os_path_join (checkpoint_dir (train_cfg example_cfg))
                     (checkpoint_file (train_cfg example_cfg))) (fs example_world) = Some (File [7])"
    by (simp add: example_cfg_def example_world_def os_path_join_def)
  from construction_empties_checkpoint_dir[OF i] f
  have d: "lookup (checkpoint_dir (train_cfg example_cfg)) (fs w') = Some (Dir Map.empty)"
    and "\<exists>sd wts. unpickle example_ext [7] = Inr sd
            \<and> load_state_dict example_ext \<lparr>arch = configured_arch example_cfg,
                  weights = fst (init_weights example_ext (configured_arch example_cfg) (rng example_world)),
                  training = True\<rparr> sd = Inr wts
            \<and> model t = Some \<lparr>arch = configured_arch example_cfg, weights = wts, training = True\<rparr>"
    by blast+
  then have m: "map_option weights (model t) = Some 7"
    by (auto simp: example_ext_def)
  have o: "lookup [''checkpoints'', ''old.pth''] (fs example_world) = Some (File [9])"
    by (simp add: example_world_def)
  from i d m o example_init_returns show ?thesis
    by (simp add: example_cfg_def)
qed


theorem anchor_generation_deterministic_witness:
  "fst (Trainer_init example_ext example_cfg example_world) = Inr ()
   \<and> fst (Trainer_init example_ext example_cfg other_world) = Inr ()
   \<and> fst (torch_randn example_ext [1, 3, 1, 1] 1) \<noteq> fst (torch_randn example_ext [1, 3, 1, 1] 6)
   \<and> map_option anchor_boxes (label_encoder (fst (snd (Trainer_init example_ext example_cfg example_world))))
       = Some [[1 / 2, 1 / 2, 1, 1]]
   \<and> map_option anchor_boxes (label_encoder (fst (snd (Trainer_init example_ext example_cfg other_world))))
       = map_option anchor_boxes (label_encoder (fst (snd (Trainer_init example_ext example_cfg example_world))))"
proof -
  obtain t1 w1 where i1: "Trainer_init example_ext example_cfg example_world = (Inr (), t1, w1)"
    using example_init_returns
    by (cases "Trainer_init example_ext example_cfg example_world") auto
  obtain t2 w2 where i2: "Trainer_init example_ext example_cfg other_world = (Inr (), t2, w2)"
    using other_init_returns
    by (cases "Trainer_init example_ext example_cfg other_world") auto
  have r: "fst (torch_randn example_ext [1, 3, 1, 1] 1) \<noteq> fst (torch_randn example_ext [1, 3, 1, 1] 6)"
    by (simp add: torch_randn_def example_ext_def)
  from anchor_generation_deterministic[OF i1 i2] i1 i2 r show ?thesis
    by (simp add: example_ext_def example_cfg_def configured_arch_def)
qed

subsection \<open>Trainer: the epoch loops\<close>

lemma anchor_generations_append [simp]:
  "anchor_generations (xs @ ys) = anchor_generations xs + anchor_generations ys"
  by (induction xs rule: anchor_generations.induct) auto

lemma encoder_calls_append [simp]:
  "encoder_calls (xs @ ys) = encoder_calls xs @ encoder_calls ys"
  by (induction xs rule: encoder_calls.induct) auto

lemma criterion_labels_append [simp]:
  "criterion_labels (xs @ ys) = criterion_labels xs @ criterion_labels ys"
  by (induction xs rule: criterion_labels.induct) auto

lemma train_batches_constructed:
  assumes "model self = Some m" and "label_encoder self = Some enc"
      and "criterion self = Some crit" and "optimizer self = Some opt"
  shows "\<exists>total self' w' m' opt' new.
           train_batches ext samples total0 self w = (Inr total, self', w')
         \<and> self' = self\<lparr>model := Some m', optimizer := Some opt'\<rparr>
         \<and> arch m' = arch m \<and> training m' = training m
         \<and> fs w' = fs w \<and> rng w' = rng w \<and> stdout w' = stdout w
         \<and> calls w' = calls w @ new
         \<and> anchor_generations new = 0
         \<and> encoder_calls new = map (\<lambda>s. (enc, sample_objs s)) samples
         \<and> criterion_labels new = map (\<lambda>s. encode ext enc (sample_objs s)) samples"
  using assms
proof (induction samples arbitrary: total0 self w m opt)
  case Nil
  then show ?case
    by (auto intro!: exI[of _ m] exI[of _ opt])
next
  case (Cons s samples)
  let ?images = "sample_image s"
  let ?labels = "encode ext enc (sample_objs s)"
  obtain wts' opt' where st: "adam_step ext crit m opt ?images ?labels = (wts', opt')"
    by (cases "adam_step ext crit m opt ?images ?labels") auto
  let ?self1 = "self\<lparr>model := Some (m\<lparr>weights := wts'\<rparr>), optimizer := Some opt'\<rparr>"
  let ?w1 = "log_call CallOptimizerStep
               (log_call (CallCriterion (forward ext m ?images) ?labels)
                 (log_call (CallEncoder enc (sample_objs s)) (log_call (CallModel ?images) w)))"
  let ?total1 = "py_add (float_ops ext) total0 (PyFloat (loss_value ext crit (forward ext m ?images) ?labels))"
  have step: "train_batches ext (s # samples) total0 self w = train_batches ext samples ?total1 ?self1 ?w1"
    using Cons.prems st by (simp add: Let_def getattr_def)
  have pre: "model ?self1 = Some (m\<lparr>weights := wts'\<rparr>)" "label_encoder ?self1 = Some enc"
    "criterion ?self1 = Some crit" "optimizer ?self1 = Some opt'"
    using Cons.prems by simp_all
  from Cons.IH[OF pre, of ?total1 ?w1] obtain total self' w' m' opt'' new where
    ih: "train_batches ext samples ?total1 ?self1 ?w1 = (Inr total, self', w')"
        "self' = ?self1\<lparr>model := Some m', optimizer := Some opt''\<rparr>"
        "arch m' = arch (m\<lparr>weights := wts'\<rparr>)" "training m' = training (m\<lparr>weights := wts'\<rparr>)"
        "fs w' = fs ?w1" "rng w' = rng ?w1" "stdout w' = stdout ?w1"
        "calls w' = calls ?w1 @ new"
        "anchor_generations new = 0"
        "encoder_calls new = map (\<lambda>s. (enc, sample_objs s)) samples"
        "criterion_labels new = map (\<lambda>s. encode ext enc (sample_objs s)) samples"
    by blast
  let ?new = "[CallModel ?images, CallEncoder enc (sample_objs s),
               CallCriterion (forward ext m ?images) ?labels, CallOptimizerStep] @ new"
  have "train_batches ext (s # samples) total0 self w = (Inr total, self', w')
         \<and> self' = self\<lparr>model := Some m', optimizer := Some opt''\<rparr>
         \<and> arch m' = arch m \<and> training m' = training m
         \<and> fs w' = fs w \<and> rng w' = rng w \<and> stdout w' = stdout w
         \<and> calls w' = calls w @ ?new
         \<and> anchor_generations ?new = 0
         \<and> encoder_calls ?new = map (\<lambda>s. (enc, sample_objs s)) (s # samples)
         \<and> criterion_labels ?new = map (\<lambda>s. encode ext enc (sample_objs s)) (s # samples)"
    using step ih by (simp add: log_call_def)
  then show ?case by blast
qed

lemma evaluate_batches_constructed:
  assumes "model self = Some m" and "label_encoder self = Some enc"
      and "criterion self = Some crit"
  shows "\<exists>total w' new.
           evaluate_batches ext samples total0 self w = (Inr total, self, w')
         \<and> fs w' = fs w \<and> rng w' = rng w \<and> stdout w' = stdout w
         \<and> calls w' = calls w @ new
         \<and> anchor_generations new = 0
         \<and> encoder_calls new = map (\<lambda>s. (enc, sample_objs s)) samples
         \<and> criterion_labels new = map (\<lambda>s. encode ext enc (sample_objs s)) samples"
  using assms
proof (induction samples arbitrary: total0 w)
  case Nil
  then show ?case by auto
next
  case (Cons s samples)
  let ?images = "sample_image s"
  let ?labels = "encode ext enc (sample_objs s)"
  let ?w1 = "log_call (CallCriterion (forward ext m ?images) ?labels)
                 (log_call (CallEncoder enc (sample_objs s)) (log_call (CallModel ?images) w))"
  let ?total1 = "py_add (float_ops ext) total0 (PyFloat (loss_value ext crit (forward ext m ?images) ?labels))"
  have step: "evaluate_batches ext (s # samples) total0 self w = evaluate_batches ext samples ?total1 self ?w1"
    using Cons.prems by (simp add: Let_def getattr_def)
  from Cons.IH[OF Cons.prems, of ?total1 ?w1] obtain total w' new where
    ih: "evaluate_batches ext samples ?total1 self ?w1 = (Inr total, self, w')"
        "fs w' = fs ?w1" "rng w' = rng ?w1" "stdout w' = stdout ?w1"
        "calls w' = calls ?w1 @ new"
        "anchor_generations new = 0"
        "encoder_calls new = map (\<lambda>s. (enc, sample_objs s)) samples"
        "criterion_labels new = map (\<lambda>s. encode ext enc (sample_objs s)) samples"
    by blast
  let ?new = "[CallModel ?images, CallEncoder enc (sample_objs s),
               CallCriterion (forward ext m ?images) ?labels] @ new"
  have "evaluate_batches ext (s # samples) total0 self w = (Inr total, self, w')
         \<and> fs w' = fs w \<and> rng w' = rng w \<and> stdout w' = stdout w
         \<and> calls w' = calls w @ ?new
         \<and> anchor_generations ?new = 0
         \<and> encoder_calls ?new = map (\<lambda>s. (enc, sample_objs s)) (s # samples)
         \<and> criterion_labels ?new = map (\<lambda>s. encode ext enc (sample_objs s)) (s # samples)"
    using step ih by (simp add: log_call_def)
  then show ?case by blast
qed

lemma train_on_epoch_constructed:
  assumes m: "model self = Some m" and enc: "label_encoder self = Some enc"
      and crit: "criterion self = Some crit" and opt: "optimizer self = Some opt"
      and ld: "train_loader self = Some ld"
      and bs: "batches ext ld (rng w) = (samples, seed')"
  shows "\<exists>total self' w' m' opt' new.
           train_batches ext samples (PyInt 0) (self\<lparr>model := Some (m\<lparr>training := True\<rparr>)\<rparr>)
             (w\<lparr>rng := seed'\<rparr>) = (Inr total, self', w')
         \<and> train_on_epoch ext self w epoch =
             (py_truediv (float_ops ext) total (PyInt (int (length samples))), self', w')
         \<and> self' = self\<lparr>model := Some m', optimizer := Some opt'\<rparr>
         \<and> fs w' = fs w \<and> rng w' = seed' \<and> stdout w' = stdout w
         \<and> calls w' = calls w @ new
         \<and> anchor_generations new = 0
         \<and> encoder_calls new = map (\<lambda>s. (enc, sample_objs s)) samples
         \<and> criterion_labels new = map (\<lambda>s. encode ext enc (sample_objs s)) samples"
proof -
  let ?self1 = "self\<lparr>model := Some (m\<lparr>training := True\<rparr>)\<rparr>"
  have pre: "model ?self1 = Some (m\<lparr>training := True\<rparr>)" "label_encoder ?self1 = Some enc"
    "criterion ?self1 = Some crit" "optimizer ?self1 = Some opt"
    using enc crit opt by simp_all
  from train_batches_constructed[OF pre, of ext samples "PyInt 0" "w\<lparr>rng := seed'\<rparr>"]
  obtain total self' w' m' opt' new where
    tb: "train_batches ext samples (PyInt 0) ?self1 (w\<lparr>rng := seed'\<rparr>) = (Inr total, self', w')"
        "self' = ?self1\<lparr>model := Some m', optimizer := Some opt'\<rparr>"
        "fs w' = fs (w\<lparr>rng := seed'\<rparr>)" "rng w' = rng (w\<lparr>rng := seed'\<rparr>)"
        "stdout w' = stdout (w\<lparr>rng := seed'\<rparr>)"
        "calls w' = calls (w\<lparr>rng := seed'\<rparr>) @ new"
        "anchor_generations new = 0"
        "encoder_calls new = map (\<lambda>s. (enc, sample_objs s)) samples"
        "criterion_labels new = map (\<lambda>s. encode ext enc (sample_objs s)) samples"
    by blast
  have "train_on_epoch ext self w epoch =
             (py_truediv (float_ops ext) total (PyInt (int (length samples))), self', w')"
    using m ld bs tb(1) by (simp add: train_on_epoch_def getattr_def)
  with tb show ?thesis by auto
qed

lemma evaluate_on_epoch_constructed:
  assumes m: "model self = Some m" and enc: "label_encoder self = Some enc"
      and crit: "criterion self = Some crit"
      and ld: "eval_loader self = Some ld"
      and bs: "batches ext ld (rng w) = (samples, seed')"
  shows "\<exists>total w' new.
           evaluate_batches ext samples (PyInt 0) (self\<lparr>model := Some (m\<lparr>training := False\<rparr>)\<rparr>)
             (w\<lparr>rng := seed'\<rparr>) = (Inr total, self\<lparr>model := Some (m\<lparr>training := False\<rparr>)\<rparr>, w')
         \<and> evaluate_on_epoch ext self w epoch =
             (py_truediv (float_ops ext) total (PyInt (int (length samples))),
              self\<lparr>model := Some (m\<lparr>training := False\<rparr>)\<rparr>, w')
         \<and> fs w' = fs w \<and> rng w' = seed' \<and> stdout w' = stdout w
         \<and> calls w' = calls w @ new
         \<and> anchor_generations new = 0
         \<and> encoder_calls new = map (\<lambda>s. (enc, sample_objs s)) samples
         \<and> criterion_labels new = map (\<lambda>s. encode ext enc (sample_objs s)) samples"
proof -
  let ?self1 = "self\<lparr>model := Some (m\<lparr>training := False\<rparr>)\<rparr>"
  have pre: "model ?self1 = Some (m\<lparr>training := False\<rparr>)" "label_encoder ?self1 = Some enc"
    "criterion ?self1 = Some crit"
    using enc crit by simp_all
  from evaluate_batches_constructed[OF pre, of ext samples "PyInt 0" "w\<lparr>rng := seed'\<rparr>"]
  obtain total w' new where
    tb: "evaluate_batches ext samples (PyInt 0) ?self1 (w\<lparr>rng := seed'\<rparr>) = (Inr total, ?self1, w')"
        "fs w' = fs (w\<lparr>rng := seed'\<rparr>)" "rng w' = rng (w\<lparr>rng := seed'\<rparr>)"
        "stdout w' = stdout (w\<lparr>rng := seed'\<rparr>)"
        "calls w' = calls (w\<lparr>rng := seed'\<rparr>) @ new"
        "anchor_generations new = 0"
        "encoder_calls new = map (\<lambda>s. (enc, sample_objs s)) samples"
        "criterion_labels new = map (\<lambda>s. encode ext enc (sample_objs s)) samples"
    by blast
  have "evaluate_on_epoch ext self w epoch =
             (py_truediv (float_ops ext) total (PyInt (int (length samples))), ?self1, w')"
    using m ld bs tb(1) by (simp add: evaluate_on_epoch_def getattr_def)
  with tb show ?thesis by auto
qed

lemma py_truediv_by_count:
  "py_truediv ops acc (PyInt (int (length xs))) =
     (if xs = [] then Inl ZeroDivisionError
      else Inr (fdiv ops (to_float ops acc) (float_of_int ops (int (length xs)))))"
  by (simp add: py_truediv_def)

subsection \<open>Trainer: the operations after construction\<close>

lemmas loop_example_defs = example_encoder_def example_train_loader_def example_eval_loader_def
  example_trainer_def constructed_world_def

lemma example_init_value:
  "Trainer_init example_ext example_cfg example_world = (Inr (), example_trainer, constructed_world)"
  by (simp add: example_defs trainer_defs loop_example_defs)

lemma empty_loader_init_value:
  "Trainer_init empty_loader_ext example_cfg example_world = (Inr (), example_trainer, constructed_world)"
  by (simp add: empty_loader_ext_def example_defs trainer_defs loop_example_defs)


text \<open>
  C5, as stated, fails: on a Trainer constructed over an empty dataset the loader yields
  no batch, and both epoch operations raise ZeroDivisionError at their return statement
  (\<^verbatim>\<open>0 / 0\<close>).
\<close>

theorem unguarded_division_counterexample:
  "fst (Trainer_init empty_loader_ext example_cfg example_world) = Inr ()
   \<and> fst (batches empty_loader_ext example_train_loader 2) = []
   \<and> fst (train_on_epoch empty_loader_ext example_trainer constructed_world 0) = Inl ZeroDivisionError
   \<and> fst (evaluate_on_epoch empty_loader_ext example_trainer constructed_world 0) = Inl ZeroDivisionError"
  by (simp add: empty_loader_init_value)
     (simp add: empty_loader_ext_def example_ext_def loop_example_defs train_on_epoch_def
        evaluate_on_epoch_def getattr_def py_truediv_def)

lemma new_calls_append: "calls w' = calls w @ new \<Longrightarrow> new_calls w w' = new"
  by (simp add: new_calls_def)

lemma train_on_epoch_invariant:
  assumes c: "constructed enc t" and r: "train_on_epoch ext t w e = (r, t', w')"
  shows "constructed enc t' \<and> cfg t' = cfg t
       \<and> (\<exists>new. calls w' = calls w @ new \<and> anchor_generations new = 0
              \<and> (\<forall>x \<in> set (encoder_calls new). fst x = enc))"
proof -
  from c obtain m crit opt ld where a: "model t = Some m" "label_encoder t = Some enc"
      "criterion t = Some crit" "optimizer t = Some opt" "train_loader t = Some ld"
    by (auto simp: constructed_def)
  obtain samples seed' where bs: "batches ext ld (rng w) = (samples, seed')"
    by (cases "batches ext ld (rng w)") auto
  from train_on_epoch_constructed[OF a bs, of e] r c show ?thesis
    by (auto simp: constructed_def)
qed

lemma evaluate_on_epoch_invariant:
  assumes c: "constructed enc t" and r: "evaluate_on_epoch ext t w e = (r, t', w')"
  shows "constructed enc t' \<and> cfg t' = cfg t
       \<and> (\<exists>new. calls w' = calls w @ new \<and> anchor_generations new = 0
              \<and> (\<forall>x \<in> set (encoder_calls new). fst x = enc))"
proof -
  from c obtain m crit ld where a: "model t = Some m" "label_encoder t = Some enc"
      "criterion t = Some crit" "eval_loader t = Some ld"
    by (auto simp: constructed_def)
  obtain samples seed' where bs: "batches ext ld (rng w) = (samples, seed')"
    by (cases "batches ext ld (rng w)") auto
  from evaluate_on_epoch_constructed[OF a bs, of e] r c show ?thesis
    by (auto simp: constructed_def)
qed

lemma run_epochs_invariant:
  assumes "constructed enc t" and "run_epochs ext epochs t w = (r, t', w')"
  shows "constructed enc t'
       \<and> (\<exists>new. calls w' = calls w @ new \<and> anchor_generations new = 0
              \<and> (\<forall>x \<in> set (encoder_calls new). fst x = enc))"
  using assms
proof (induction epochs arbitrary: t w)
  case Nil
  then show ?case by simp
next
  case (Cons e epochs)
  obtain r1 t1 w1 where tr: "train_on_epoch ext t w e = (r1, t1, w1)"
    by (cases "train_on_epoch ext t w e") auto
  from train_on_epoch_invariant[OF Cons.prems(1) tr] obtain new1 where
    i1: "constructed enc t1" "calls w1 = calls w @ new1" "anchor_generations new1 = 0"
        "\<forall>x \<in> set (encoder_calls new1). fst x = enc"
    by blast
  show ?case
  proof (cases r1)
    case (Inl err)
    with Cons.prems(2) tr i1 show ?thesis by auto
  next
    case (Inr train_loss)
    obtain r2 t2 w2 where ev: "evaluate_on_epoch ext t1 w1 e = (r2, t2, w2)"
      by (cases "evaluate_on_epoch ext t1 w1 e") auto
    from evaluate_on_epoch_invariant[OF i1(1) ev] obtain new2 where
      i2: "constructed enc t2" "calls w2 = calls w1 @ new2" "anchor_generations new2 = 0"
          "\<forall>x \<in> set (encoder_calls new2). fst x = enc"
      by blast
    show ?thesis
    proof (cases r2)
      case (Inl err)
      with Cons.prems(2) tr Inr ev i1 i2 show ?thesis by auto
    next
      case eval_loss: (Inr eval_loss)
      from i2(1) obtain m where m: "model t2 = Some m"
        by (auto simp: constructed_def)
      let ?w3 = "py_print (PrintEpoch e train_loss eval_loss) w2"
      let ?p = "os_path_join (checkpoint_dir (train_cfg (cfg t2)))
                  [format_checkpoint_file ext e train_loss eval_loss]"
      show ?thesis
      proof (cases "write_file ?p (pickle ext (weights m)) (fs ?w3)")
        case (Inl err)
        with Cons.prems(2) tr Inr ev eval_loss m i1 i2 show ?thesis
          by (auto simp: Let_def getattr_def py_print_def)
      next
        case tree: (Inr tree)
        from Cons.prems(2) tr Inr ev eval_loss m tree
        have rest: "run_epochs ext epochs t2 (?w3\<lparr>fs := tree\<rparr>) = (r, t', w')"
          by (simp add: Let_def getattr_def)
        from Cons.IH[OF i2(1) rest] obtain new3 where
          i3: "constructed enc t'" "calls w' = calls (?w3\<lparr>fs := tree\<rparr>) @ new3"
              "anchor_generations new3 = 0" "\<forall>x \<in> set (encoder_calls new3). fst x = enc"
          by blast
        from i1 i2 i3 have "calls w' = calls w @ (new1 @ new2 @ new3)
            \<and> anchor_generations (new1 @ new2 @ new3) = 0
            \<and> (\<forall>x \<in> set (encoder_calls (new1 @ new2 @ new3)). fst x = enc)"
          by (auto simp: py_print_def)
        with i3(1) show ?thesis by blast
      qed
    qed
  qed
qed

lemma run_invariant:
  assumes "constructed enc t" and "run ext t w = (r, t', w')"
  shows "constructed enc t'
       \<and> (\<exists>new. calls w' = calls w @ new \<and> anchor_generations new = 0
              \<and> (\<forall>x \<in> set (encoder_calls new). fst x = enc))"
  using run_epochs_invariant[OF assms(1) assms(2)[unfolded run_def]]
  by (simp add: py_print_def)

lemma prepare_data_loaders:
  assumes "prepare_data ext self w = (r, self1, w1)"
  shows "train_loader self1 \<noteq> None \<and> eval_loader self1 \<noteq> None"
  using assms by (auto simp: prepare_data_def Let_def)

lemma Trainer_init_constructed:
  assumes "Trainer_init ext c w0 = (Inr u, t0, w1)"
  shows "\<exists>enc. constructed enc t0 \<and> anchor_generations (new_calls w0 w1) = 1"
proof -
  let ?self = "\<lparr>cfg = c, train_loader = None, eval_loader = None, model = None,
                  criterion = None, label_encoder = None, optimizer = None\<rparr> :: ('a, 'b) trainer"
  obtain r0 self0 w0' where pd: "prepare_data ext ?self w0 = (r0, self0, w0')"
    by (cases "prepare_data ext ?self w0") auto
  from prepare_data_frame[OF pd] have fr: "r0 = Inr ()" "cfg self0 = c" "calls w0' = calls w0"
    by auto
  from prepare_data_loaders[OF pd] have lds: "train_loader self0 \<noteq> None" "eval_loader self0 \<noteq> None"
    by auto
  from pd fr(1) have i: "Trainer_init ext c w0 = parse_config ext self0 w0'"
    by (simp add: Trainer_init_def)
  from assms i have pc: "parse_config ext self0 w0' = (Inr u, t0, w1)" by simp
  from parse_config_success[OF pc] obtain self1 w1' m x enc where
      bm: "build_model ext self0 w0' = (Inr (), self1, w1')" and m: "model self1 = Some m"
      and t0: "t0 = self1\<lparr>criterion := Some \<lparr>loss_alpha = alpha (train_cfg (cfg self0)),
                                              loss_neg_pos_ratio = neg_pos_ratio (train_cfg (cfg self0))\<rparr>,
                           label_encoder := Some enc,
                           optimizer := Some (adam_init ext (weights m))\<rparr>"
      and cl: "calls w1 = calls w0' @ [CallGetPredictorShapes x,
               CallGenerateAnchors (get_predictor_shapes ext m x) (scales (cfg self0)) (aspect_ratios (cfg self0))]"
    by blast
  from build_model_frame[OF bm] lds have "train_loader self1 \<noteq> None" "eval_loader self1 \<noteq> None"
    by auto
  with t0 m have "constructed enc t0"
    by (simp add: constructed_def)
  moreover from cl fr have "anchor_generations (new_calls w0 w1) = 1"
    by (simp add: new_calls_def)
  ultimately show ?thesis by blast
qed

text \<open>
  C3. The anchor boxes are generated exactly once, in \<^verbatim>\<open>parse_config\<close> at construction,
  and the label encoder built from them is what every later operation uses: a
  constructed Trainer holds an encoder \<open>enc\<close>, exactly one anchor generation was logged
  during construction, and \<^verbatim>\<open>train_on_epoch\<close>, \<^verbatim>\<open>evaluate_on_epoch\<close> and \<^verbatim>\<open>run\<close>,
  from any Trainer holding \<open>enc\<close>, leave a Trainer holding the same \<open>enc\<close>, generate no
  anchors and call no encoder but \<open>enc\<close>, whatever their result.
\<close>

theorem anchors_generated_once_and_reused:
  assumes "Trainer_init ext c w0 = (Inr u, t0, w1)"
  shows "\<exists>enc. constructed enc t0 \<and> anchor_generations (new_calls w0 w1) = 1
       \<and> (\<forall>t w e r t' w'. constructed enc t \<and> train_on_epoch ext t w e = (r, t', w') \<longrightarrow>
             constructed enc t' \<and> anchor_generations (new_calls w w') = 0
             \<and> (\<forall>x \<in> set (encoder_calls (new_calls w w')). fst x = enc))
       \<and> (\<forall>t w e r t' w'. constructed enc t \<and> evaluate_on_epoch ext t w e = (r, t', w') \<longrightarrow>
             constructed enc t' \<and> anchor_generations (new_calls w w') = 0
             \<and> (\<forall>x \<in> set (encoder_calls (new_calls w w')). fst x = enc))
       \<and> (\<forall>t w r t' w'. constructed enc t \<and> run ext t w = (r, t', w') \<longrightarrow>
             constructed enc t' \<and> anchor_generations (new_calls w w') = 0
             \<and> (\<forall>x \<in> set (encoder_calls (new_calls w w')). fst x = enc))"
proof -
  from Trainer_init_constructed[OF assms] obtain enc where
    c: "constructed enc t0" "anchor_generations (new_calls w0 w1) = 1"
    by blast
  have a: "constructed enc t' \<and> anchor_generations (new_calls w w') = 0
             \<and> (\<forall>x \<in> set (encoder_calls (new_calls w w')). fst x = enc)"
    if "constructed enc t \<and> train_on_epoch ext t w e = (r, t', w')" for t w e r t' w'
    using train_on_epoch_invariant[of enc t ext w e r t' w'] that
    by (auto simp: new_calls_append)
  have b: "constructed enc t' \<and> anchor_generations (new_calls w w') = 0
             \<and> (\<forall>x \<in> set (encoder_calls (new_calls w w')). fst x = enc)"
    if "constructed enc t \<and> evaluate_on_epoch ext t w e = (r, t', w')" for t w e r t' w'
    using evaluate_on_epoch_invariant[of enc t ext w e r t' w'] that
    by (auto simp: new_calls_append)
  have d: "constructed enc t' \<and> anchor_generations (new_calls w w') = 0
             \<and> (\<forall>x \<in> set (encoder_calls (new_calls w w')). fst x = enc)"
    if "constructed enc t \<and> run ext t w = (r, t', w')" for t w r t' w'
    using run_invariant[of enc t ext w r t' w'] that
    by (auto simp: new_calls_append)
  from c a b d show ?thesis by blast
qed

text \<open>
  C7. Encoded targets are produced fresh for each batch: in \<^verbatim>\<open>train_on_epoch\<close> and in
  \<^verbatim>\<open>evaluate_on_epoch\<close> the encoder is called once per batch, on that batch's objects,
  in order; the labels the criterion receives for a batch are the encoding of that
  batch's objects; and the Trainer afterwards differs from the one before in its model
  and its optimizer only (for evaluation: in its model only), so no encoded target is
  kept on it.
\<close>

theorem encoded_targets_fresh_per_batch:
  assumes "model t = Some m" and "label_encoder t = Some enc" and "criterion t = Some crit"
      and "optimizer t = Some opt" and "train_loader t = Some ld" and "eval_loader t = Some ld'"
  shows "(\<exists>r t' w'. train_on_epoch ext t w e = (r, t', w')
            \<and> encoder_calls (new_calls w w')
                = map (\<lambda>s. (enc, sample_objs s)) (fst (batches ext ld (rng w)))
            \<and> criterion_labels (new_calls w w')
                = map (\<lambda>s. encode ext enc (sample_objs s)) (fst (batches ext ld (rng w)))
            \<and> t'\<lparr>model := model t, optimizer := optimizer t\<rparr> = t)
       \<and> (\<exists>r t' w'. evaluate_on_epoch ext t w e = (r, t', w')
            \<and> encoder_calls (new_calls w w')
                = map (\<lambda>s. (enc, sample_objs s)) (fst (batches ext ld' (rng w)))
            \<and> criterion_labels (new_calls w w')
                = map (\<lambda>s. encode ext enc (sample_objs s)) (fst (batches ext ld' (rng w)))
            \<and> t'\<lparr>model := model t\<rparr> = t)"
proof -
  obtain samples seed where bs: "batches ext ld (rng w) = (samples, seed)"
    by (cases "batches ext ld (rng w)") auto
  obtain samples' seed' where bs': "batches ext ld' (rng w) = (samples', seed')"
    by (cases "batches ext ld' (rng w)") auto
  from train_on_epoch_constructed[OF assms(1-5) bs, of e] bs
  have a: "\<exists>r t' w'. train_on_epoch ext t w e = (r, t', w')
            \<and> encoder_calls (new_calls w w')
                = map (\<lambda>s. (enc, sample_objs s)) (fst (batches ext ld (rng w)))
            \<and> criterion_labels (new_calls w w')
                = map (\<lambda>s. encode ext enc (sample_objs s)) (fst (batches ext ld (rng w)))
            \<and> t'\<lparr>model := model t, optimizer := optimizer t\<rparr> = t"
    by (auto simp: new_calls_append)
  from evaluate_on_epoch_constructed[OF assms(1-3) assms(6) bs', of e] bs'
  have b: "\<exists>r t' w'. evaluate_on_epoch ext t w e = (r, t', w')
            \<and> encoder_calls (new_calls w w')
                = map (\<lambda>s. (enc, sample_objs s)) (fst (batches ext ld' (rng w)))
            \<and> criterion_labels (new_calls w w')
                = map (\<lambda>s. encode ext enc (sample_objs s)) (fst (batches ext ld' (rng w)))
            \<and> t'\<lparr>model := model t\<rparr> = t"
    by (auto simp: new_calls_append)
  from a b show ?thesis by blast
qed

text \<open>
  C5, amended. \<^verbatim>\<open>train_on_epoch\<close> and \<^verbatim>\<open>evaluate_on_epoch\<close> divide the accumulated
  loss by the number of batches with no guard: on a constructed Trainer they return
  the accumulated loss divided by the number of batches when the loader yields at least
  one batch, and raise ZeroDivisionError when it yields none.
\<close>

theorem epoch_loss_divided_by_batch_count:
  assumes "model t = Some m" and "label_encoder t = Some enc" and "criterion t = Some crit"
      and "optimizer t = Some opt" and "train_loader t = Some ld" and "eval_loader t = Some ld'"
      and "batches ext ld (rng w) = (samples, seed)"
      and "batches ext ld' (rng w) = (samples', seed')"
  shows "(\<exists>acc. fst (train_batches ext samples (PyInt 0)
                      (t\<lparr>model := Some (m\<lparr>training := True\<rparr>)\<rparr>) (w\<lparr>rng := seed\<rparr>)) = Inr acc
            \<and> fst (train_on_epoch ext t w e) =
                (if samples = [] then Inl ZeroDivisionError
                 else Inr (fdiv (float_ops ext) (to_float (float_ops ext) acc)
                             (float_of_int (float_ops ext) (int (length samples))))))
       \<and> (\<exists>acc. fst (evaluate_batches ext samples' (PyInt 0)
                      (t\<lparr>model := Some (m\<lparr>training := False\<rparr>)\<rparr>) (w\<lparr>rng := seed'\<rparr>)) = Inr acc
            \<and> fst (evaluate_on_epoch ext t w e) =
                (if samples' = [] then Inl ZeroDivisionError
                 else Inr (fdiv (float_ops ext) (to_float (float_ops ext) acc)
                             (float_of_int (float_ops ext) (int (length samples'))))))"
proof -
  from train_on_epoch_constructed[OF assms(1-5) assms(7), of e]
  have a: "\<exists>acc. fst (train_batches ext samples (PyInt 0)
                      (t\<lparr>model := Some (m\<lparr>training := True\<rparr>)\<rparr>) (w\<lparr>rng := seed\<rparr>)) = Inr acc
            \<and> fst (train_on_epoch ext t w e) =
                (if samples = [] then Inl ZeroDivisionError
                 else Inr (fdiv (float_ops ext) (to_float (float_ops ext) acc)
                             (float_of_int (float_ops ext) (int (length samples)))))"
    by (auto simp: py_truediv_by_count)
  from evaluate_on_epoch_constructed[OF assms(1-3) assms(6) assms(8), of e]
  have b: "\<exists>acc. fst (evaluate_batches ext samples' (PyInt 0)
                      (t\<lparr>model := Some (m\<lparr>training := False\<rparr>)\<rparr>) (w\<lparr>rng := seed'\<rparr>)) = Inr acc
            \<and> fst (evaluate_on_epoch ext t w e) =
                (if samples' = [] then Inl ZeroDivisionError
                 else Inr (fdiv (float_ops ext) (to_float (float_ops ext) acc)
                             (float_of_int (float_ops ext) (int (length samples')))))"
    by (auto simp: py_truediv_by_count)
  from a b show ?thesis by blast
qed

text \<open>The theorems on the epoch loops at the concrete inputs.\<close>

lemma example_trainer_attributes:
  "model example_trainer = Some \<lparr>arch = SSDModel 1 1 3 [1 / 10, 9 / 10] [[1, 2]], weights = 7, training = True\<rparr>"
  "label_encoder example_trainer = Some example_encoder"
  "criterion example_trainer = Some \<lparr>loss_alpha = 1, loss_neg_pos_ratio = 3\<rparr>"
  "optimizer example_trainer = Some 0"
  "train_loader example_trainer = Some example_train_loader"
  "eval_loader example_trainer = Some example_eval_loader"
  by (simp_all add: example_trainer_def)

lemma example_batches:
  "batches example_ext example_train_loader (rng constructed_world) = ([example_sample, other_sample], 3)"
  "batches example_ext example_eval_loader (rng constructed_world) = ([other_sample], 3)"
  by (simp_all add: example_ext_def example_train_loader_def example_eval_loader_def constructed_world_def)

theorem anchors_generated_once_and_reused_witness:
  "Trainer_init example_ext example_cfg example_world = (Inr (), example_trainer, constructed_world)
   \<and> anchor_generations (new_calls example_world constructed_world) = 1
   \<and> label_encoder (fst (snd (train_on_epoch example_ext example_trainer constructed_world 0)))
       = Some example_encoder
   \<and> anchor_generations (new_calls constructed_world
        (snd (snd (train_on_epoch example_ext example_trainer constructed_world 0)))) = 0
   \<and> label_encoder (fst (snd (run example_ext example_trainer constructed_world)))
       = Some example_encoder
   \<and> anchor_generations (new_calls constructed_world
        (snd (snd (run example_ext example_trainer constructed_world)))) = 0"
proof -
  from anchors_generated_once_and_reused[OF example_init_value] obtain enc where
    c: "constructed enc example_trainer"
    and g: "anchor_generations (new_calls example_world constructed_world) = 1"
    and tr': "\<forall>t w e r t' w'. constructed enc t \<and> train_on_epoch example_ext t w e = (r, t', w') \<longrightarrow>
             constructed enc t' \<and> anchor_generations (new_calls w w') = 0
             \<and> (\<forall>x \<in> set (encoder_calls (new_calls w w')). fst x = enc)"
    and ev': "\<forall>t w e r t' w'. constructed enc t \<and> evaluate_on_epoch example_ext t w e = (r, t', w') \<longrightarrow>
             constructed enc t' \<and> anchor_generations (new_calls w w') = 0
             \<and> (\<forall>x \<in> set (encoder_calls (new_calls w w')). fst x = enc)"
    and rn': "\<forall>t w r t' w'. constructed enc t \<and> run example_ext t w = (r, t', w') \<longrightarrow>
             constructed enc t' \<and> anchor_generations (new_calls w w') = 0
             \<and> (\<forall>x \<in> set (encoder_calls (new_calls w w')). fst x = enc)"
    by (elim exE conjE) (rule that)
  have tr: "constructed enc t' \<and> anchor_generations (new_calls w w') = 0"
    if "constructed enc t \<and> train_on_epoch example_ext t w e = (r, t', w')" for t w e r t' w'
    using tr' that by blast
  have rn: "constructed enc t' \<and> anchor_generations (new_calls w w') = 0"
    if "constructed enc t \<and> run example_ext t w = (r, t', w')" for t w r t' w'
    using rn' that by blast
  from c have enc: "enc = example_encoder"
    by (simp add: constructed_def example_trainer_def)
  obtain r1 t1 w1 where e1: "train_on_epoch example_ext example_trainer constructed_world 0 = (r1, t1, w1)"
    by (cases "train_on_epoch example_ext example_trainer constructed_world 0") auto
  obtain r2 t2 w2 where e2: "run example_ext example_trainer constructed_world = (r2, t2, w2)"
    by (cases "run example_ext example_trainer constructed_world") auto
  from tr[of example_trainer constructed_world 0 r1 t1 w1] c e1 enc
  have a: "label_encoder t1 = Some example_encoder" "anchor_generations (new_calls constructed_world w1) = 0"
    by (auto simp: constructed_def)
  from rn[of example_trainer constructed_world r2 t2 w2] c e2 enc
  have b: "label_encoder t2 = Some example_encoder" "anchor_generations (new_calls constructed_world w2) = 0"
    by (auto simp: constructed_def)
  from example_init_value g a b e1 e2 show ?thesis by simp
qed

theorem encoded_targets_fresh_per_batch_witness:
  "model example_trainer = Some \<lparr>arch = SSDModel 1 1 3 [1 / 10, 9 / 10] [[1, 2]], weights = 7, training = True\<rparr>
   \<and> label_encoder example_trainer = Some example_encoder
   \<and> criterion example_trainer = Some \<lparr>loss_alpha = 1, loss_neg_pos_ratio = 3\<rparr>
   \<and> optimizer example_trainer = Some 0
   \<and> train_loader example_trainer = Some example_train_loader
   \<and> eval_loader example_trainer = Some example_eval_loader
   \<and> (\<exists>r t' w'. train_on_epoch example_ext example_trainer constructed_world 0 = (r, t', w')
         \<and> encoder_calls (new_calls constructed_world w')
             = [(example_encoder, [[[1, 0, 0, 1, 1]], []]),
                (example_encoder, [[[2, 0, 0, 1, 1], [1, 0, 0, 1, 1]]])]
         \<and> criterion_labels (new_calls constructed_world w')
             = [\<lparr>shape = [2], data = [1, 0]\<rparr>, \<lparr>shape = [1], data = [2]\<rparr>]
         \<and> t'\<lparr>model := model example_trainer, optimizer := optimizer example_trainer\<rparr> = example_trainer)
   \<and> (\<exists>r t' w'. evaluate_on_epoch example_ext example_trainer constructed_world 0 = (r, t', w')
         \<and> encoder_calls (new_calls constructed_world w')
             = [(example_encoder, [[[2, 0, 0, 1, 1], [1, 0, 0, 1, 1]]])]
         \<and> criterion_labels (new_calls constructed_world w') = [\<lparr>shape = [1], data = [2]\<rparr>]
         \<and> t'\<lparr>model := model example_trainer\<rparr> = example_trainer)"
proof -
  have m1: "map (\<lambda>s. (example_encoder, sample_objs s)) [example_sample, other_sample]
              = [(example_encoder, [[[1, 0, 0, 1, 1]], []]),
                 (example_encoder, [[[2, 0, 0, 1, 1], [1, 0, 0, 1, 1]]])]"
    by (simp add: example_sample_def other_sample_def)
  have m2: "map (\<lambda>s. encode example_ext example_encoder (sample_objs s)) [example_sample, other_sample]
              = [\<lparr>shape = [2], data = [1, 0]\<rparr>, \<lparr>shape = [1], data = [2]\<rparr>]"
    by (simp add: example_sample_def other_sample_def example_ext_def)
  have m3: "map (\<lambda>s. (example_encoder, sample_objs s)) [other_sample]
              = [(example_encoder, [[[2, 0, 0, 1, 1], [1, 0, 0, 1, 1]]])]"
    by (simp add: other_sample_def)
  have m4: "map (\<lambda>s. encode example_ext example_encoder (sample_objs s)) [other_sample]
              = [\<lparr>shape = [1], data = [2]\<rparr>]"
    by (simp add: other_sample_def example_ext_def)
  note th = encoded_targets_fresh_per_batch[OF example_trainer_attributes,
          of example_ext constructed_world 0, unfolded example_batches fst_conv m1 m2 m3 m4]
  from th example_trainer_attributes show ?thesis by simp
qed

theorem epoch_loss_divided_by_batch_count_witness:
  "model example_trainer = Some \<lparr>arch = SSDModel 1 1 3 [1 / 10, 9 / 10] [[1, 2]], weights = 7, training = True\<rparr>
   \<and> label_encoder example_trainer = Some example_encoder
   \<and> criterion example_trainer = Some \<lparr>loss_alpha = 1, loss_neg_pos_ratio = 3\<rparr>
   \<and> optimizer example_trainer = Some 0
   \<and> train_loader example_trainer = Some example_train_loader
   \<and> eval_loader example_trainer = Some example_eval_loader
   \<and> batches example_ext example_train_loader (rng constructed_world) = ([example_sample, other_sample], 3)
   \<and> batches example_ext example_eval_loader (rng constructed_world) = ([other_sample], 3)
   \<and> fst (train_on_epoch example_ext example_trainer constructed_world 0) = Inr (5 / 2)
   \<and> fst (evaluate_on_epoch example_ext example_trainer constructed_world 0) = Inr 3"
proof -
  have tb: "fst (train_batches example_ext [example_sample, other_sample] (PyInt 0)
              (example_trainer\<lparr>model := Some (\<lparr>arch = SSDModel 1 1 3 [1 / 10, 9 / 10] [[1, 2]],
                   weights = 7, training = True\<rparr>\<lparr>training := True\<rparr>)\<rparr>)
              (constructed_world\<lparr>rng := 3\<rparr>)) = Inr (PyFloat 5)"
    by (simp add: example_trainer_def example_encoder_def example_ext_def example_ops_def
          example_sample_def other_sample_def Let_def getattr_def)
  have eb: "fst (evaluate_batches example_ext [other_sample] (PyInt 0)
              (example_trainer\<lparr>model := Some (\<lparr>arch = SSDModel 1 1 3 [1 / 10, 9 / 10] [[1, 2]],
                   weights = 7, training = True\<rparr>\<lparr>training := False\<rparr>)\<rparr>)
              (constructed_world\<lparr>rng := 3\<rparr>)) = Inr (PyFloat 3)"
    by (simp add: example_trainer_def example_encoder_def example_ext_def example_ops_def
          example_sample_def other_sample_def Let_def getattr_def)
  from epoch_loss_divided_by_batch_count[OF example_trainer_attributes example_batches, of 0] tb eb
  have "fst (train_on_epoch example_ext example_trainer constructed_world 0) = Inr (5 / 2)
      \<and> fst (evaluate_on_epoch example_ext example_trainer constructed_world 0) = Inr 3"
    by (simp add: example_ext_def example_ops_def)
  with example_trainer_attributes example_batches show ?thesis by simp
qed

subsection \<open>Eval.run with the missing names supplied\<close>

text \<open>
  What \<^verbatim>\<open>run\<close> does when it gets past its lookups: the globals are a parameter, and
  the object has its model, its loader and \<^verbatim>\<open>eval_cfg\<close> assigned from outside. First
  the two drawing loops, then one image, one batch, all batches.
\<close>

lemma list_of_length_5: "length xs = 5 \<Longrightarrow> \<exists>a b c d e. xs = [a, b, c, d, e]"
  by (auto simp: length_Suc_conv eval_nat_numeral)

lemma list_of_length_6: "length xs = 6 \<Longrightarrow> \<exists>a b c d e f. xs = [a, b, c, d, e, f]"
  by (auto simp: length_Suc_conv eval_nat_numeral)

lemma draw_groundtruths_keeps_detections:
  "draw_groundtruths ops g sx sy label img lines = (r, img', lines') \<Longrightarrow>
   img_h img' = img_h img \<and> img_w img' = img_w img
   \<and> detection_rectangles img' = detection_rectangles img"
proof (induction label arbitrary: img lines)
  case Nil
  then show ?case by auto
next
  case (Cons box rest)
  show ?case
  proof (cases "length box = 5 \<and> load_module_attr g ''np'' ''numpy'' ''int'' = Inr ()
                 \<and> load_module_attr g ''cv2'' ''cv2'' ''rectangle'' = Inr ()")
    case True
    let ?box2 = "map (trunc_int ops) (box ! 0 # map2 (fmul ops) (tl box) [sx, sy, sx, sy])"
    let ?img1 = "img\<lparr>drawn := drawn img @
                   [Rectangle (?box2 ! 1, ?box2 ! 2) (?box2 ! 3, ?box2 ! 4) (0, 0, 255) 2]\<rparr>"
    from True Cons.prems obtain lines1 where
      "draw_groundtruths ops g sx sy rest ?img1 lines1 = (r, img', lines')"
      by (simp add: Let_def)
    from Cons.IH[OF this] show ?thesis
      by (simp add: detection_rectangles_def)
  next
    case False
    with Cons.prems show ?thesis
      by (auto simp: Let_def split: if_splits sum.splits)
  qed
qed

lemma draw_detections_rescaled:
  "draw_detections ops g sx sy yp img lines = (Inr u, img', lines') \<Longrightarrow>
   img_h img' = img_h img \<and> img_w img' = img_w img
   \<and> detection_rectangles img'
       = detection_rectangles img @ map (rescaled_rectangle ops sx sy) yp"
proof (induction yp arbitrary: img lines)
  case Nil
  then show ?case by auto
next
  case (Cons box rest)
  from Cons.prems have len: "length box = 6"
    by (auto simp: Let_def split: if_splits)
  then obtain a b c d e f where box: "box = [a, b, c, d, e, f]"
    using list_of_length_6 by blast
  let ?img2 = "img\<lparr>drawn := drawn img @
                 [rescaled_rectangle ops sx sy box,
                  PutText b (trunc_int ops (fmul ops e sx), trunc_int ops (fmul ops f sy)) 1 (0, 0, 255) 2]\<rparr>"
  from Cons.prems box obtain lines1 where
    "draw_detections ops g sx sy rest ?img2 lines1 = (Inr u, img', lines')"
    by (auto simp: Let_def rescaled_rectangle_def split: sum.splits)
  from Cons.IH[OF this] show ?case
    by (simp add: detection_rectangles_def rescaled_rectangle_def)
qed

lemma read_image_scales:
  assumes "read_image ext g filename = Inr (img, sy, sx)"
  shows "\<exists>images_dir height width.
           g ''images_dir'' = Some (PyStr images_dir)
           \<and> g ''img_height'' = Some (PyNumber height)
           \<and> g ''img_width'' = Some (PyNumber width)
           \<and> imread ext (path_join images_dir filename) = Some (img_h img, img_w img)
           \<and> drawn img = []
           \<and> sy = original_scale (float_ops ext) (img_h img) height
           \<and> sx = original_scale (float_ops ext) (img_w img) width"
  using assms
  by (auto simp: read_image_def load_str_def load_number_def load_global_def py_truediv_def
        original_scale_def
      split: sum.splits option.splits pyval.splits prod.splits if_splits)

lemma eval_image_effect:
  assumes run: "eval_image ext g self item w = (r, w')" and p: "e_eval_cfg self = Some p"
  shows "ew_decode_calls w' = ew_decode_calls w
       \<and> (case r of
            Inl e \<Rightarrow> ew_images w' = ew_images w
          | Inr u \<Rightarrow> (\<exists>wr. ew_images w' = ew_images w @ [wr] \<and> drawn_rescaled ext g p item wr))"
proof -
  obtain yp label filename where item: "item = (yp, label, filename)"
    by (cases item) auto
  show ?thesis
  proof (cases "read_image ext g filename")
    case (Inl e)
    with run item show ?thesis by (auto simp: eval_image_def)
  next
    case (Inr res)
    obtain img sy sx where res: "res = (img, sy, sx)"
      by (cases res) auto
    from read_image_scales[OF Inr[unfolded res]] obtain images_dir height width where
      sc: "g ''images_dir'' = Some (PyStr images_dir)" "g ''img_height'' = Some (PyNumber height)"
          "g ''img_width'' = Some (PyNumber width)"
          "imread ext (path_join images_dir filename) = Some (img_h img, img_w img)"
          "drawn img = []"
          "sy = original_scale (float_ops ext) (img_h img) height"
          "sx = original_scale (float_ops ext) (img_w img) width"
      by blast
    obtain r1 img1 gt_lines where
      gt: "draw_groundtruths (float_ops ext) g sx sy label img [] = (r1, img1, gt_lines)"
      by (cases "draw_groundtruths (float_ops ext) g sx sy label img []") auto
    obtain r2 img2 det_lines where
      dt: "draw_detections (float_ops ext) g sx sy yp img1 [] = (r2, img2, det_lines)"
      by (cases "draw_detections (float_ops ext) g sx sy yp img1 []") auto
    from draw_groundtruths_keeps_detections[OF gt] sc(5)
    have i1: "img_h img1 = img_h img" "img_w img1 = img_w img" "detection_rectangles img1 = []"
      by (simp_all add: detection_rectangles_def)
    show ?thesis
    proof (cases r)
      case (Inl e)
      with run item Inr res gt dt p show ?thesis
        by (auto simp: eval_image_def getattr_def Let_def split: sum.splits)
    next
      case r: (Inr u)
      from run item Inr res gt dt p r have ok: "r2 = Inr ()"
        and w': "ew_decode_calls w' = ew_decode_calls w"
             "ew_images w' = ew_images w @ [(path_join (debug_imgs p) (basename filename), img2)]"
        by (auto simp: eval_image_def getattr_def Let_def split: sum.splits)
      from draw_detections_rescaled[OF dt[unfolded ok]] i1
      have i2: "img_h img2 = img_h img" "img_w img2 = img_w img"
               "detection_rectangles img2 = map (rescaled_rectangle (float_ops ext) sx sy) yp"
        by simp_all
      from sc i2 item have "drawn_rescaled ext g p item (path_join (debug_imgs p) (basename filename), img2)"
        by (simp add: drawn_rescaled_def)
      with w' r show ?thesis by simp
    qed
  qed
qed

lemma eval_images_effect:
  assumes p: "e_eval_cfg self = Some p"
  shows "eval_images ext g self items w = (r, w') \<Longrightarrow>
     ew_decode_calls w' = ew_decode_calls w
     \<and> (\<exists>processed written rest.
           ew_images w' = ew_images w @ written \<and> items = processed @ rest
           \<and> list_all2 (drawn_rescaled ext g p) processed written
           \<and> (r = Inr () \<longrightarrow> rest = []))"
proof (induction items arbitrary: w)
  case Nil
  then show ?case by auto
next
  case (Cons item items)
  obtain r1 w1 where e1: "eval_image ext g self item w = (r1, w1)"
    by (cases "eval_image ext g self item w") auto
  note eff = eval_image_effect[OF e1 p]
  show ?case
  proof (cases r1)
    case (Inl e)
    with Cons.prems e1 eff have "ew_decode_calls w' = ew_decode_calls w"
      "ew_images w' = ew_images w @ []" "item # items = [] @ (item # items)"
      "list_all2 (drawn_rescaled ext g p) [] []" "r \<noteq> Inr ()"
      by auto
    then show ?thesis by blast
  next
    case (Inr u)
    with Cons.prems e1 have rest: "eval_images ext g self items w1 = (r, w')"
      by simp
    from eff Inr obtain wr where wr: "ew_decode_calls w1 = ew_decode_calls w"
        "ew_images w1 = ew_images w @ [wr]" "drawn_rescaled ext g p item wr"
      by auto
    from Cons.IH[OF rest] obtain processed written rest' where
      ih: "ew_decode_calls w' = ew_decode_calls w1" "ew_images w' = ew_images w1 @ written"
          "items = processed @ rest'" "list_all2 (drawn_rescaled ext g p) processed written"
          "r = Inr () \<longrightarrow> rest' = []"
      by blast
    from wr ih have "ew_decode_calls w' = ew_decode_calls w"
      "ew_images w' = ew_images w @ (wr # written)" "item # items = (item # processed) @ rest'"
      "list_all2 (drawn_rescaled ext g p) (item # processed) (wr # written)"
      by simp_all
    with ih(5) show ?thesis by blast
  qed
qed

lemma eval_batch_effect:
  assumes run: "eval_batch ext g self s total_images w = (r, w')"
    and m: "e_model self = Some m" and p: "e_eval_cfg self = Some p"
  shows "(case r of
            Inr n \<Rightarrow> ew_decode_calls w' = ew_decode_calls w @ [batch_decode_call ext m p s]
          | Inl e \<Rightarrow> ew_decode_calls w' = ew_decode_calls w
                     \<or> ew_decode_calls w' = ew_decode_calls w @ [batch_decode_call ext m p s])
       \<and> (\<exists>processed written rest.
             ew_images w' = ew_images w @ written \<and> batch_items ext m p s = processed @ rest
             \<and> list_all2 (drawn_rescaled ext g p) processed written
             \<and> ((\<exists>n. r = Inr n) \<longrightarrow> rest = []))"
proof -
  let ?w1 = "w\<lparr>ew_decode_calls := ew_decode_calls w @ [batch_decode_call ext m p s]\<rparr>"
  have none: ?thesis if "w' = w" "\<exists>e. r = Inl e"
  proof -
    from that have "ew_images w' = ew_images w @ []" "batch_items ext m p s = [] @ batch_items ext m p s"
      "list_all2 (drawn_rescaled ext g p) [] []" "\<not> (\<exists>n. r = Inr n)" "ew_decode_calls w' = ew_decode_calls w"
      by auto
    with that show ?thesis by (auto split: sum.splits)
  qed
  show ?thesis
  proof (cases "load_str g ''device'' = Inl (projl (load_str g ''device''))
                \<or> shape (sample_image s) = []
                \<or> load_callable g ''decode_output'' = Inl (projl (load_callable g ''decode_output''))")
    case True
    with run m p have "w' = w \<and> (\<exists>e. r = Inl e)"
      by (auto simp: eval_batch_def Let_def getattr_def split: sum.splits list.splits)
    with none show ?thesis by blast
  next
    case False
    obtain r2 w2 where ei: "eval_images ext g self (batch_items ext m p s) ?w1 = (r2, w2)"
      by (cases "eval_images ext g self (batch_items ext m p s) ?w1") auto
    from False run m p ei have res: "w' = w2" "(\<exists>n. r = Inr n) = (r2 = Inr ())"
      by (auto simp: eval_batch_def Let_def getattr_def batch_items_def batch_decode_call_def
          split: sum.splits list.splits)
    from eval_images_effect[OF p ei] obtain processed written rest where
      ih: "ew_decode_calls w2 = ew_decode_calls ?w1" "ew_images w2 = ew_images ?w1 @ written"
          "batch_items ext m p s = processed @ rest" "list_all2 (drawn_rescaled ext g p) processed written"
          "r2 = Inr () \<longrightarrow> rest = []"
      by blast
    from ih res have "ew_images w' = ew_images w @ written \<and> batch_items ext m p s = processed @ rest
             \<and> list_all2 (drawn_rescaled ext g p) processed written
             \<and> ((\<exists>n. r = Inr n) \<longrightarrow> rest = [])"
      by simp
    moreover from ih(1) res(1)
    have "ew_decode_calls w' = ew_decode_calls w @ [batch_decode_call ext m p s]"
      by simp
    ultimately show ?thesis by (auto split: sum.splits)
  qed
qed

lemma decoded_items_Cons:
  "decoded_items ext m p (s # samples) = batch_items ext m p s @ decoded_items ext m p samples"
  by (simp add: decoded_items_def)

lemma eval_batches_effect:
  assumes m: "e_model self = Some m" and p: "e_eval_cfg self = Some p"
  shows "eval_batches ext g self samples total_images w = (r, w') \<Longrightarrow>
     (\<exists>k. k \<le> length samples
          \<and> ew_decode_calls w' = ew_decode_calls w @ map (batch_decode_call ext m p) (take k samples)
          \<and> ((\<exists>n. r = Inr n) \<longrightarrow> k = length samples))
     \<and> (\<exists>processed written rest.
           ew_images w' = ew_images w @ written \<and> decoded_items ext m p samples = processed @ rest
           \<and> list_all2 (drawn_rescaled ext g p) processed written
           \<and> ((\<exists>n. r = Inr n) \<longrightarrow> rest = []))"
proof (induction samples arbitrary: total_images w)
  case Nil
  then show ?case by (auto simp: decoded_items_def)
next
  case (Cons s samples)
  obtain r1 w1 where b1: "eval_batch ext g self s total_images w = (r1, w1)"
    by (cases "eval_batch ext g self s total_images w") auto
  from eval_batch_effect[OF b1 m p] obtain processed1 written1 rest1 where
    im1: "ew_images w1 = ew_images w @ written1" "batch_items ext m p s = processed1 @ rest1"
         "list_all2 (drawn_rescaled ext g p) processed1 written1"
         "(\<exists>n. r1 = Inr n) \<longrightarrow> rest1 = []"
    and dc1: "case r1 of
                Inr n \<Rightarrow> ew_decode_calls w1 = ew_decode_calls w @ [batch_decode_call ext m p s]
              | Inl e \<Rightarrow> ew_decode_calls w1 = ew_decode_calls w
                         \<or> ew_decode_calls w1 = ew_decode_calls w @ [batch_decode_call ext m p s]"
    by blast
  show ?case
  proof (cases r1)
    case (Inl e)
    with Cons.prems b1 have res: "r = Inl e" "w' = w1"
      by auto
    from dc1 Inl have two: "ew_decode_calls w1 = ew_decode_calls w
                     \<or> ew_decode_calls w1 = ew_decode_calls w @ [batch_decode_call ext m p s]"
      by simp
    have "\<exists>k. k \<le> length (s # samples)
          \<and> ew_decode_calls w' = ew_decode_calls w @ map (batch_decode_call ext m p) (take k (s # samples))
          \<and> ((\<exists>n. r = Inr n) \<longrightarrow> k = length (s # samples))"
      using two
    proof
      assume "ew_decode_calls w1 = ew_decode_calls w"
      with res have "0 \<le> length (s # samples)
        \<and> ew_decode_calls w' = ew_decode_calls w @ map (batch_decode_call ext m p) (take 0 (s # samples))
        \<and> ((\<exists>n. r = Inr n) \<longrightarrow> 0 = length (s # samples))"
        by simp
      then show ?thesis by blast
    next
      assume "ew_decode_calls w1 = ew_decode_calls w @ [batch_decode_call ext m p s]"
      with res have "1 \<le> length (s # samples)
        \<and> ew_decode_calls w' = ew_decode_calls w @ map (batch_decode_call ext m p) (take 1 (s # samples))
        \<and> ((\<exists>n. r = Inr n) \<longrightarrow> 1 = length (s # samples))"
        by simp
      then show ?thesis by blast
    qed
    moreover from im1 res
    have "ew_images w' = ew_images w @ written1
          \<and> decoded_items ext m p (s # samples) = processed1 @ (rest1 @ decoded_items ext m p samples)
          \<and> list_all2 (drawn_rescaled ext g p) processed1 written1
          \<and> ((\<exists>n. r = Inr n) \<longrightarrow> rest1 @ decoded_items ext m p samples = [])"
      by (simp add: decoded_items_Cons)
    ultimately show ?thesis by blast
  next
    case (Inr n1)
    with Cons.prems b1 have rest: "eval_batches ext g self samples n1 w1 = (r, w')"
      by simp
    from Cons.IH[OF rest] obtain k processed written rest' where
      ih: "k \<le> length samples"
          "ew_decode_calls w' = ew_decode_calls w1 @ map (batch_decode_call ext m p) (take k samples)"
          "(\<exists>n. r = Inr n) \<longrightarrow> k = length samples"
          "ew_images w' = ew_images w1 @ written"
          "decoded_items ext m p samples = processed @ rest'"
          "list_all2 (drawn_rescaled ext g p) processed written"
          "(\<exists>n. r = Inr n) \<longrightarrow> rest' = []"
      by blast
    from dc1 Inr have dc: "ew_decode_calls w1 = ew_decode_calls w @ [batch_decode_call ext m p s]"
      by simp
    from im1 Inr have all1: "batch_items ext m p s = processed1"
      by simp
    from ih dc have "Suc k \<le> length (s # samples)
          \<and> ew_decode_calls w' = ew_decode_calls w @ map (batch_decode_call ext m p) (take (Suc k) (s # samples))
          \<and> ((\<exists>n. r = Inr n) \<longrightarrow> Suc k = length (s # samples))"
      by simp
    moreover from ih im1 all1
    have "ew_images w' = ew_images w @ (written1 @ written)
          \<and> decoded_items ext m p (s # samples) = (processed1 @ processed) @ rest'
          \<and> list_all2 (drawn_rescaled ext g p) (processed1 @ processed) (written1 @ written)
          \<and> ((\<exists>n. r = Inr n) \<longrightarrow> rest' = [])"
      by (simp add: decoded_items_Cons list_all2_appendI)
    ultimately show ?thesis by blast
  qed
qed

lemma Eval_run_effect:
  assumes m: "e_model self = Some m" and ld: "e_eval_loader self = Some ld"
    and p: "e_eval_cfg self = Some p"
    and bs: "batches ext ld (ew_rng w) = (samples, seed')"
    and run: "Eval_run ext g self w = (r, w')"
  shows "(\<exists>k. k \<le> length samples
          \<and> ew_decode_calls w' = ew_decode_calls w @ map (batch_decode_call ext m p) (take k samples)
          \<and> (r = Inr () \<longrightarrow> k = length samples))
     \<and> (\<exists>processed written rest.
           ew_images w' = ew_images w @ written \<and> decoded_items ext m p samples = processed @ rest
           \<and> list_all2 (drawn_rescaled ext g p) processed written
           \<and> (r = Inr () \<longrightarrow> rest = []))"
proof (cases "load_module_attr g ''cv2'' ''cv2'' ''FONT_HERSHEY_SIMPLEX''")
  case (Inl e)
  with run have "w' = w" "r = Inl e"
    by (simp_all add: Eval_run_def)
  then have "0 \<le> length samples
          \<and> ew_decode_calls w' = ew_decode_calls w @ map (batch_decode_call ext m p) (take 0 samples)
          \<and> (r = Inr () \<longrightarrow> 0 = length samples)"
    and "ew_images w' = ew_images w @ [] \<and> decoded_items ext m p samples = [] @ decoded_items ext m p samples
           \<and> list_all2 (drawn_rescaled ext g p) [] []
           \<and> (r = Inr () \<longrightarrow> decoded_items ext m p samples = [])"
    by simp_all
  then show ?thesis by blast
next
  case (Inr font)
  obtain r1 w1 where eb: "eval_batches ext g self samples 0 (w\<lparr>ew_rng := seed'\<rparr>) = (r1, w1)"
    by (cases "eval_batches ext g self samples 0 (w\<lparr>ew_rng := seed'\<rparr>)") auto
  from run Inr ld bs eb have res: "ew_decode_calls w' = ew_decode_calls w1"
      "ew_images w' = ew_images w1" "(r = Inr ()) = (\<exists>n. r1 = Inr n)"
    by (auto simp: Eval_run_def getattr_def split: sum.splits)
  from eval_batches_effect[OF m p eb] res show ?thesis
    by simp
qed

lemmas eval_run_defs = Eval_run_def eval_batch_def eval_image_def read_image_def
  load_module_attr_def load_callable_def load_str_def load_number_def load_global_def
  getattr_def py_truediv_def path_join_def basename_def split_dot_first_def Let_def

lemmas eval_example_defs = example_eval_ext_def example_globals_def eval_module_globals_def
  example_eval_params_def example_eval_model_def example_eval_obj_def example_eval_world_def
  example_eval_loader_def example_sample_def other_sample_def example_ops_def

lemma example_eval_attributes:
  "e_model example_eval_obj = Some example_eval_model"
  "e_eval_loader example_eval_obj = Some example_eval_loader"
  "e_eval_cfg example_eval_obj = Some example_eval_params"
  "batches example_eval_ext example_eval_loader (ew_rng example_eval_world)
     = ([example_sample, other_sample], 0)"
  by (simp_all add: example_eval_obj_def example_eval_ext_def example_eval_world_def)

lemma upt_0_2: "[0..<2] = [0, 1]"
  by (simp add: numeral_2_eq_2)

lemma example_eval_run_value:
  "Eval_run example_eval_ext example_globals example_eval_obj example_eval_world
     = (Inr (), example_eval_result)"
  by (simp add: eval_run_defs eval_example_defs example_eval_result_def upt_0_2)

text \<open>
  C6. The caller rescales every decoded detection before drawing it on the original
  image: the images \<^verbatim>\<open>run\<close> writes are, in order, those of the items it iterates over
  (all of them when it returns); each is the image read from \<^verbatim>\<open>images_dir\<close> at its
  original height and width, and its blue rectangles are the item's detections as the
  decoder returned them, with \<open>xmin\<close> and \<open>xmax\<close> multiplied by original width over
  \<^verbatim>\<open>img_width\<close> and \<open>ymin\<close> and \<open>ymax\<close> by original height over \<^verbatim>\<open>img_height\<close>, then
  truncated.
\<close>

theorem detections_rescaled_before_drawing:
  assumes "e_model self = Some m" and "e_eval_loader self = Some ld"
    and "e_eval_cfg self = Some p"
    and "batches ext ld (ew_rng w) = (samples, seed')"
    and "Eval_run ext g self w = (r, w')"
  shows "\<exists>processed written rest.
           ew_images w' = ew_images w @ written
           \<and> decoded_items ext m p samples = processed @ rest
           \<and> list_all2 (drawn_rescaled ext g p) processed written
           \<and> (r = Inr () \<longrightarrow> rest = [])"
  using Eval_run_effect[OF assms] by blast

text \<open>The theorem on \<^verbatim>\<open>Eval.run\<close> at the concrete inputs.\<close>

theorem detections_rescaled_before_drawing_witness:
  "e_model example_eval_obj = Some example_eval_model
   \<and> e_eval_loader example_eval_obj = Some example_eval_loader
   \<and> e_eval_cfg example_eval_obj = Some example_eval_params
   \<and> batches example_eval_ext example_eval_loader (ew_rng example_eval_world)
       = ([example_sample, other_sample], 0)
   \<and> Eval_run example_eval_ext example_globals example_eval_obj example_eval_world
       = (Inr (), example_eval_result)
   \<and> decoded_items example_eval_ext example_eval_model example_eval_params [example_sample, other_sample]
       = [([[1, 9 / 10, 1, 2, 3, 4]], [[1, 0, 0, 1, 1]], ''a.jpg''),
          ([[1, 9 / 10, 1, 2, 3, 4]], [], ''b.jpg''),
          ([[1, 9 / 10, 1, 2, 3, 4]], [[2, 0, 0, 1, 1], [1, 0, 0, 1, 1]], ''c.jpg'')]
   \<and> list_all2 (drawn_rescaled example_eval_ext example_globals example_eval_params)
        (decoded_items example_eval_ext example_eval_model example_eval_params [example_sample, other_sample])
        (ew_images example_eval_result)
   \<and> map (\<lambda>written. (img_h (snd written), img_w (snd written), detection_rectangles (snd written)))
        (ew_images example_eval_result)
       = [(4, 6, [Rectangle (3, 4) (9, 8) (255, 0, 0) 2]),
          (2, 2, [Rectangle (1, 2) (3, 4) (255, 0, 0) 2]),
          (1, 3, [Rectangle (1, 1) (4, 2) (255, 0, 0) 2])]"
proof -
  from detections_rescaled_before_drawing[OF example_eval_attributes example_eval_run_value]
  obtain processed written where
    a: "ew_images example_eval_result = ew_images example_eval_world @ written"
       "decoded_items example_eval_ext example_eval_model example_eval_params [example_sample, other_sample]
          = processed"
       "list_all2 (drawn_rescaled example_eval_ext example_globals example_eval_params) processed written"
    by auto
  from a(1) have w: "written = ew_images example_eval_result"
    by (simp add: example_eval_world_def)
  have d: "decoded_items example_eval_ext example_eval_model example_eval_params [example_sample, other_sample]
       = [([[1, 9 / 10, 1, 2, 3, 4]], [[1, 0, 0, 1, 1]], ''a.jpg''),
          ([[1, 9 / 10, 1, 2, 3, 4]], [], ''b.jpg''),
          ([[1, 9 / 10, 1, 2, 3, 4]], [[2, 0, 0, 1, 1], [1, 0, 0, 1, 1]], ''c.jpg'')]"
    by (simp add: decoded_items_def batch_items_def example_eval_ext_def example_eval_model_def
          example_sample_def other_sample_def upt_0_2)
  have r: "map (\<lambda>written. (img_h (snd written), img_w (snd written), detection_rectangles (snd written)))
        (ew_images example_eval_result)
       = [(4, 6, [Rectangle (3, 4) (9, 8) (255, 0, 0) 2]),
          (2, 2, [Rectangle (1, 2) (3, 4) (255, 0, 0) 2]),
          (1, 3, [Rectangle (1, 1) (4, 2) (255, 0, 0) 2])]"
    by (simp add: example_eval_result_def detection_rectangles_def)
  from a(2,3) w d r example_eval_attributes example_eval_run_value show ?thesis
    by simp
qed

end
